theory Spec2Isabelle
  imports Complex_Main "HOL-Library.List_Lexorder" "HOL-Library.Char_ord"
begin

section \<open>Errors\<close>

text \<open>
  Every exception the modelled code raises is a value. The payload of \<open>ValueError\<close>
  records which \<^verbatim>\<open>raise\<close> statement produced it.
\<close>

datatype 'a reason =
    AllNaN                 \<comment> \<open>"Cannot fit SafeLabelEncoder with all NaN values"\<close>
  | NotFitted              \<comment> \<open>"SafeLabelEncoder must be fitted before transform"\<close>
  | NaNAt nat              \<comment> \<open>"NaN value encountered at index i"\<close>
  | NotSeen 'a             \<comment> \<open>"Label ... not seen during training"\<close>
  | PreviouslyUnseen 'a    \<comment> \<open>raised by the wrapped scikit-learn encoder\<close>
  | EmptyDataset           \<comment> \<open>"Dataset is empty or None"\<close>
  | TargetNotFound string  \<comment> \<open>"Target column ... not found in dataset"\<close>
  | NoValidFeatures        \<comment> \<open>"No valid feature columns remain after cleaning"\<close>
  | InsufficientRows nat   \<comment> \<open>"Only n valid rows remain - insufficient for training"\<close>

datatype 'a error = ValueError "'a reason" | TypeError

section \<open>app/utils/safe\_label\_encoding.py\<close>

subsection \<open>The numpy and scikit-learn operations the encoder calls\<close>

text \<open>
  A label vector is a list of optional labels: \<open>None\<close> is a missing value (what
  \<^verbatim>\<open>pd.isna\<close> answers True for). Labels of one vector are mutually comparable,
  as \<^verbatim>\<open>np.unique\<close> requires.
\<close>

definition dropna :: "'a option list \<Rightarrow> 'a list" where
  "dropna ys = map the (filter (\<lambda>y. y \<noteq> None) ys)"

text \<open>\<^verbatim>\<open>np.unique(a)\<close>: the sorted distinct elements.\<close>

definition np_unique :: "'a::linorder list \<Rightarrow> 'a list" where
  "np_unique ys = sort (remdups ys)"

text \<open>The second component of \<^verbatim>\<open>np.unique(a, return_counts=True)\<close>.\<close>

definition np_unique_counts :: "'a::linorder list \<Rightarrow> nat list" where
  "np_unique_counts ys = map (count_list ys) (np_unique ys)"

text \<open>\<^verbatim>\<open>np.argmax\<close>: the index of the first maximal element.\<close>

fun np_argmax :: "nat list \<Rightarrow> nat" where
  "np_argmax [] = 0"
| "np_argmax (c # cs) = (if \<forall>d\<in>set cs. d \<le> c then 0 else Suc (np_argmax cs))"

fun index_of :: "'a \<Rightarrow> 'a list \<Rightarrow> nat option" where
  "index_of x [] = None"
| "index_of x (y # ys) = (if x = y then Some 0 else map_option Suc (index_of x ys))"

text \<open>
  \<^verbatim>\<open>LabelEncoder.transform([label])[0]\<close> on an encoder whose \<^verbatim>\<open>classes_\<close> is
  \<open>cls\<close>: the position of the label in the vocabulary, a ValueError for a label that is
  not there.
\<close>

definition le_transform :: "'a list \<Rightarrow> 'a \<Rightarrow> 'a error + int" where
  "le_transform cls label =
     (case index_of label cls of
        None \<Rightarrow> Inl (ValueError (PreviouslyUnseen label))
      | Some k \<Rightarrow> Inr (int k))"

subsection \<open>SafeLabelEncoder\<close>

record 'a fit_stats =
  n_classes :: nat
  classes :: "'a list"
  mode_class :: 'a
  unseen_encountered :: bool
  unseen_count :: nat
  unseen_labels :: "'a list"

text \<open>
  The wrapped \<^verbatim>\<open>LabelEncoder\<close> holds no state but its \<^verbatim>\<open>classes_\<close>, and
  \<^verbatim>\<open>fit\<close> stores that same array in \<^verbatim>\<open>self.classes_\<close>, so one field stands for both.
  Isabelle names cannot end in an underscore: the attributes \<^verbatim>\<open>classes_\<close>,
  \<^verbatim>\<open>mode_class_\<close>, \<^verbatim>\<open>unseen_labels_\<close> and \<^verbatim>\<open>mapping_stats_\<close> carry the
  suffix \<open>attr\<close>.
\<close>

record 'a SafeLabelEncoder =
  handle_unknown :: string
  unknown_value :: int
  classes_attr :: "'a list option"
  mode_class_attr :: "'a option"
  unseen_labels_attr :: "'a list"
  mapping_stats_attr :: "'a fit_stats option"

definition init :: "string \<Rightarrow> int option \<Rightarrow> 'a SafeLabelEncoder" where
  "init hu uv =
     \<lparr> handle_unknown = hu,
       unknown_value = (case uv of Some v \<Rightarrow> v | None \<Rightarrow> - 1),
       classes_attr = None,
       mode_class_attr = None,
       unseen_labels_attr = [],
       mapping_stats_attr = None \<rparr>"

definition fit :: "'a::linorder SafeLabelEncoder \<Rightarrow> 'a option list \<Rightarrow> 'a error + 'a SafeLabelEncoder" where
  "fit self y =
     (let y_clean = dropna y in
      if length y_clean = 0 then Inl (ValueError AllNaN)
      else
        let cls = np_unique y_clean;
            unique = np_unique y_clean;
            counts = np_unique_counts y_clean;
            m = unique ! np_argmax counts
        in Inr (self\<lparr> classes_attr := Some cls,
                      mode_class_attr := Some m,
                      mapping_stats_attr := Some \<lparr> n_classes = length cls, classes = cls,
                                               mode_class = m, unseen_encountered = False,
                                               unseen_count = 0, unseen_labels = [] \<rparr> \<rparr>))"

record 'a transform_stats =
  total_samples :: nat
  ts_unseen_count :: nat
  ts_unseen_labels :: "'a list"
  unseen_percentage :: "rat option"
  strategy_used :: string

text \<open>
  The body of the \<^verbatim>\<open>for i, label in enumerate(y_array)\<close> loop. The result is the
  triple of \<^verbatim>\<open>encoded\<close>, \<^verbatim>\<open>unseen_mask\<close> and \<^verbatim>\<open>unseen_labels\<close> from
  position \<open>i\<close> on; the first element that raises decides the error.
\<close>

fun transform_loop ::
  "'a SafeLabelEncoder \<Rightarrow> 'a list \<Rightarrow> nat \<Rightarrow> 'a option list \<Rightarrow>
     'a error + (int list \<times> bool list \<times> 'a list)" where
  "transform_loop self cls i [] = Inr ([], [], [])"
| "transform_loop self cls i (None # ys) =
     (if handle_unknown self = ''error'' then Inl (ValueError (NaNAt i))
      else case transform_loop self cls (Suc i) ys of
             Inl e \<Rightarrow> Inl e
           | Inr (enc, msk, unseen) \<Rightarrow> Inr (unknown_value self # enc, True # msk, unseen))"
| "transform_loop self cls i (Some label # ys) =
     (if label \<notin> set cls then
        (if handle_unknown self = ''error'' then Inl (ValueError (NotSeen label))
         else if handle_unknown self = ''use_mode'' then
           (case mode_class_attr self of
              None \<Rightarrow> Inl TypeError
            | Some m \<Rightarrow>
               (case le_transform cls m of
                  Inl e \<Rightarrow> Inl e
                | Inr k \<Rightarrow>
                   (case transform_loop self cls (Suc i) ys of
                      Inl e \<Rightarrow> Inl e
                    | Inr (enc, msk, unseen) \<Rightarrow> Inr (k # enc, True # msk, label # unseen))))
         else
           (case transform_loop self cls (Suc i) ys of
              Inl e \<Rightarrow> Inl e
            | Inr (enc, msk, unseen) \<Rightarrow>
                Inr (unknown_value self # enc, True # msk, label # unseen)))
      else
        (case le_transform cls label of
           Inl e \<Rightarrow> Inl e
         | Inr k \<Rightarrow>
            (case transform_loop self cls (Suc i) ys of
               Inl e \<Rightarrow> Inl e
             | Inr (enc, msk, unseen) \<Rightarrow> Inr (k # enc, False # msk, unseen))))"

definition transform ::
  "'a::linorder SafeLabelEncoder \<Rightarrow> 'a option list \<Rightarrow>
     'a error + (int list \<times> 'a transform_stats \<times> 'a SafeLabelEncoder)" where
  "transform self y =
     (case classes_attr self of
        None \<Rightarrow> Inl (ValueError NotFitted)
      | Some cls \<Rightarrow>
         (case transform_loop self cls 0 y of
            Inl e \<Rightarrow> Inl e
          | Inr (encoded, unseen_mask, unseen) \<Rightarrow>
             let any_unseen = (True \<in> set unseen_mask);
                 unique_unseen = np_unique unseen;
                 n_unseen = length (filter id unseen_mask);
                 self' = (if any_unseen
                          then self\<lparr> unseen_labels_attr := unseen_labels_attr self @ unique_unseen \<rparr>
                          else self);
                 stats = \<lparr> total_samples = length y,
                           ts_unseen_count = n_unseen,
                           ts_unseen_labels = (if any_unseen then unique_unseen else []),
                           unseen_percentage =
                             (if length y = 0 then None
                              else Some (of_nat n_unseen / of_nat (length y) * 100)),
                           strategy_used = handle_unknown self \<rparr>
             in Inr (encoded, stats, self')))"

definition fit_transform ::
  "'a::linorder SafeLabelEncoder \<Rightarrow> 'a option list \<Rightarrow>
     'a error + (int list \<times> 'a transform_stats \<times> 'a SafeLabelEncoder)" where
  "fit_transform self y =
     (case fit self y of Inl e \<Rightarrow> Inl e | Inr self' \<Rightarrow> transform self' y)"

text \<open>
  An element of the object array \<^verbatim>\<open>inverse_transform\<close> returns: a class of the
  vocabulary, or one of the two placeholder strings. On an encoder that was never fitted,
  \<^verbatim>\<open>len(self.classes_)\<close> raises TypeError for a code that is neither the sentinel nor
  negative.
\<close>

datatype 'a decoded = Label 'a | UNKNOWN int | INVALID int

fun inverse_transform ::
  "'a SafeLabelEncoder \<Rightarrow> int list \<Rightarrow> 'a error + 'a decoded list" where
  "inverse_transform self [] = Inr []"
| "inverse_transform self (encoded_val # y) =
     (if encoded_val = unknown_value self then
        (case inverse_transform self y of
           Inl e \<Rightarrow> Inl e
         | Inr decoded \<Rightarrow> Inr (UNKNOWN (unknown_value self) # decoded))
      else if encoded_val < 0 then
        (case inverse_transform self y of
           Inl e \<Rightarrow> Inl e
         | Inr decoded \<Rightarrow> Inr (INVALID encoded_val # decoded))
      else case classes_attr self of
        None \<Rightarrow> Inl TypeError
      | Some cls \<Rightarrow>
          (if encoded_val \<ge> int (length cls) then
             (case inverse_transform self y of
                Inl e \<Rightarrow> Inl e
              | Inr decoded \<Rightarrow> Inr (INVALID encoded_val # decoded))
           else
             (case inverse_transform self y of
                Inl e \<Rightarrow> Inl e
              | Inr decoded \<Rightarrow> Inr (Label (cls ! nat encoded_val) # decoded))))"

text \<open>
  \<^verbatim>\<open>get_stats\<close>: the dictionary stored by \<^verbatim>\<open>fit\<close> (absent before fitting), with
  the key \<^verbatim>\<open>unseen_encountered\<close> recomputed and two keys added.
\<close>

record 'a encoder_info =
  fitted_stats :: "'a fit_stats option"
  unseen_encountered_now :: bool
  total_unseen_labels :: nat
  all_unseen_labels :: "'a list"

definition get_stats :: "'a SafeLabelEncoder \<Rightarrow> 'a encoder_info" where
  "get_stats self =
     \<lparr> fitted_stats =
         map_option (\<lambda>ms. ms\<lparr> unseen_encountered := length (unseen_labels_attr self) > 0 \<rparr>)
           (mapping_stats_attr self),
       unseen_encountered_now = (length (unseen_labels_attr self) > 0),
       total_unseen_labels = length (unseen_labels_attr self),
       all_unseen_labels = unseen_labels_attr self \<rparr>"

record 'a combined_stats =
  train :: "'a transform_stats"
  test :: "'a transform_stats"
  encoder_info :: "'a encoder_info"

text \<open>
  \<^verbatim>\<open>safe_encode_labels(y_train, y_test, handle_unknown)\<close>: one encoder, fitted and
  applied to the training labels, then applied to the test labels.
\<close>

definition safe_encode_labels ::
  "'a::linorder option list \<Rightarrow> 'a option list \<Rightarrow> string \<Rightarrow>
     'a error + (int list \<times> int list \<times> 'a SafeLabelEncoder \<times> 'a combined_stats)" where
  "safe_encode_labels y_train y_test hu =
     (let encoder = init hu None in
      case fit_transform encoder y_train of
        Inl e \<Rightarrow> Inl e
      | Inr (y_train_encoded, train_stats, encoder1) \<Rightarrow>
         (case transform encoder1 y_test of
            Inl e \<Rightarrow> Inl e
          | Inr (y_test_encoded, test_stats, encoder2) \<Rightarrow>
              Inr (y_train_encoded, y_test_encoded, encoder2,
                   \<lparr> train = train_stats, test = test_stats,
                     encoder_info = get_stats encoder2 \<rparr>)))"

section \<open>Tables\<close>

text \<open>
  A cell of a pandas column: a missing value (\<^verbatim>\<open>None\<close>/\<^verbatim>\<open>NaN\<close>), a number or a
  string. Numbers are exact rationals: the thresholds of the code are compared in exact
  arithmetic, not in binary floating point. A column carries the name of its dtype, a
  table is the list of its named columns in order.
\<close>

datatype cell = Null | Num rat | Str string

record series =
  dtype :: string
  vals :: "cell list"

type_synonym dataframe = "(string \<times> series) list"

text \<open>
  The pandas operations whose results depend on parsing or printing text are parameters
  of the model: \<^verbatim>\<open>pd.to_numeric(errors='coerce')\<close> on one string,
  whether \<^verbatim>\<open>pd.to_datetime(errors='raise')\<close> accepts a column,
  \<^verbatim>\<open>pd.to_datetime(errors='coerce')\<close> on one cell, \<^verbatim>\<open>str\<close> of a number,
  and the dtype pandas gives a column of numbers.
\<close>

record pandas =
  str_to_numeric :: "string \<Rightarrow> rat option"
  datetime_parses :: "cell list \<Rightarrow> bool"
  to_datetime_coerce :: "cell \<Rightarrow> cell"
  num_to_str :: "rat \<Rightarrow> string"
  numeric_dtype :: "cell list \<Rightarrow> string"

definition isna :: "cell \<Rightarrow> bool" where
  "isna c = (c = Null)"

definition series_dropna :: "cell list \<Rightarrow> cell list" where
  "series_dropna xs = filter (\<lambda>c. \<not> isna c) xs"

text \<open>\<^verbatim>\<open>Series.nunique()\<close>: the number of distinct non-null values.\<close>

definition nunique :: "cell list \<Rightarrow> nat" where
  "nunique xs = length (remdups (series_dropna xs))"

text \<open>\<^verbatim>\<open>pd.to_numeric(x, errors='coerce')\<close> on one cell; \<open>None\<close> is NaN.\<close>

definition to_numeric :: "pandas \<Rightarrow> cell \<Rightarrow> rat option" where
  "to_numeric lib c = (case c of Null \<Rightarrow> None | Num r \<Rightarrow> Some r | Str s \<Rightarrow> str_to_numeric lib s)"

text \<open>
  \<^verbatim>\<open>pd.to_numeric(series, errors='coerce').dropna()\<close>: the numbers the column
  converts to.
\<close>

definition numeric_values :: "pandas \<Rightarrow> cell list \<Rightarrow> rat list" where
  "numeric_values lib xs = List.map_filter (to_numeric lib) xs"

text \<open>\<^verbatim>\<open>x.astype(int)\<close> on one number truncates towards zero.\<close>

definition astype_int :: "rat \<Rightarrow> int" where
  "astype_int r = (if 0 \<le> r then \<lfloor>r\<rfloor> else \<lceil>r\<rceil>)"

text \<open>
  \<^verbatim>\<open>np.allclose(a, a.astype(int))\<close> with numpy's default tolerances:
  \<open>|a - b| \<le> atol + rtol * |b|\<close>, \<open>rtol = 1e-05\<close>, \<open>atol = 1e-08\<close>, for all elements.
\<close>

definition np_allclose_int :: "rat list \<Rightarrow> bool" where
  "np_allclose_int a =
     list_all (\<lambda>x. \<bar>x - of_int (astype_int x)\<bar>
                      \<le> 1 / 100000000 + 1 / 100000 * \<bar>of_int (astype_int x)\<bar>) a"

section \<open>app/utils/data\_validation.py\<close>

datatype issue =
    NullValues rat            \<comment> \<open>"p% null values"\<close>
  | ZeroVariance nat          \<comment> \<open>"Only n unique value (zero variance)"\<close>
  | HighCardinality nat       \<comment> \<open>"Very high cardinality (n unique values)"\<close>
  | MixedTypes                \<comment> \<open>"Contains mixed types"\<close>

record ColumnHealth =
  name :: string
  original_dtype :: string
  inferred_type :: string
  null_count :: nat
  null_percentage :: rat
  unique_count :: nat
  cardinality_ratio :: rat
  has_mixed_types :: bool
  sample_values :: "cell list"
  issues :: "issue list"
  recommended_action :: string
  coerce_to_dtype :: "string option"

record DataValidator =
  max_cardinality_ratio :: rat
  min_valid_rows_ratio :: rat
  max_null_ratio :: rat
  min_unique_for_regression :: nat

text \<open>\<^verbatim>\<open>DataValidator()\<close> with the defaults of \<^verbatim>\<open>__init__\<close>.\<close>

definition DataValidator_init :: DataValidator where
  "DataValidator_init =
     \<lparr> max_cardinality_ratio = 95 / 100, min_valid_rows_ratio = 1 / 10,
       max_null_ratio = 95 / 100, min_unique_for_regression = 10 \<rparr>"

text \<open>\<^verbatim>\<open>_infer_column_type\<close>, called on the non-null values of a column.\<close>

definition infer_column_type :: "pandas \<Rightarrow> cell list \<Rightarrow> string \<times> bool \<times> string option" where
  "infer_column_type lib xs =
     (if length xs = 0 then (''invalid'', False, None)
      else
        let non_null_numeric = numeric_values lib xs;
            conversion_rate = (of_nat (length non_null_numeric) / of_nat (length xs) :: rat)
        in if conversion_rate > 8 / 10 then
             (let has_mixed = (conversion_rate < 1) in
              if np_allclose_int non_null_numeric then (''numeric'', has_mixed, Some ''int64'')
              else (''numeric'', has_mixed, Some ''float64''))
           else if datetime_parses lib xs then (''datetime'', False, Some ''datetime64[ns]'')
           else
             let unique_ratio = (of_nat (nunique xs) / of_nat (length xs) :: rat) in
             if unique_ratio < 1 / 2 \<or> nunique xs < 50 then (''categorical'', False, Some ''object'')
             else (''text'', False, Some ''object''))"

text \<open>The percentage of nulls \<^verbatim>\<open>_analyze_column\<close> computes first.\<close>

definition null_pct :: "cell list \<Rightarrow> rat" where
  "null_pct xs =
     (if length xs > 0
      then of_nat (length (filter isna xs)) / of_nat (length xs) * 100
      else 100)"

definition analyze_column :: "DataValidator \<Rightarrow> pandas \<Rightarrow> series \<Rightarrow> string \<Rightarrow> ColumnHealth" where
  "analyze_column self lib s col_name =
     (let n_total = length (vals s);
          n_null = length (filter isna (vals s));
          pct = null_pct (vals s);
          non_null = series_dropna (vals s);
          n_unique = (if length non_null > 0 then nunique non_null else 0);
          card = (if length non_null > 0 then of_nat n_unique / of_nat (length non_null) else 0);
          samples = (if length non_null > 0 then take 5 non_null else [])
      in
      if pct \<ge> max_null_ratio self * 100 then
        \<lparr> name = col_name, original_dtype = dtype s, inferred_type = ''invalid'',
          null_count = n_null, null_percentage = pct, unique_count = n_unique,
          cardinality_ratio = card, has_mixed_types = False, sample_values = samples,
          issues = [NullValues pct], recommended_action = ''drop'', coerce_to_dtype = None \<rparr>
      else
        (case infer_column_type lib non_null of
           (inferred, has_mixed, coerce_to) \<Rightarrow>
             let issues1 = (if n_unique \<le> 1 \<and> length non_null > 0
                            then [ZeroVariance n_unique] else []);
                 issues2 = (if inferred = ''categorical'' \<and> card > max_cardinality_ratio self
                            then issues1 @ [HighCardinality n_unique] else issues1);
                 issues3 = (if has_mixed then issues2 @ [MixedTypes] else issues2);
                 action =
                   (if pct \<ge> max_null_ratio self * 100 \<or> n_unique \<le> 1 then ''drop''
                    else if (case coerce_to of None \<Rightarrow> False | Some d \<Rightarrow> d \<noteq> [] \<and> d \<noteq> dtype s)
                         then ''coerce''
                    else ''keep'')
             in
             \<lparr> name = col_name, original_dtype = dtype s, inferred_type = inferred,
               null_count = n_null, null_percentage = pct, unique_count = n_unique,
               cardinality_ratio = card, has_mixed_types = has_mixed, sample_values = samples,
               issues = issues3, recommended_action = action, coerce_to_dtype = coerce_to \<rparr>))"

text \<open>\<^verbatim>\<open>DataValidator._infer_problem_type(series, health)\<close>.\<close>

definition infer_problem_type :: "DataValidator \<Rightarrow> pandas \<Rightarrow> series \<Rightarrow> ColumnHealth \<Rightarrow> string" where
  "infer_problem_type self lib s health =
     (let non_null = series_dropna (vals s) in
      if length non_null = 0 then ''classification''
      else
        let n_unique = unique_count health;
            n_samples = length non_null
        in if inferred_type health = ''categorical'' \<or> inferred_type health = ''text''
           then ''classification''
           else if inferred_type health = ''numeric'' then
             (let numeric_vals = numeric_values lib non_null;
                  is_all_integers = np_allclose_int numeric_vals
              in if n_unique < min_unique_for_regression self \<and> is_all_integers
                 then ''classification''
                 else if (of_nat n_unique / of_nat n_samples :: rat) < 5 / 100
                 then ''classification''
                 else ''regression'')
           else ''classification'')"

subsection \<open>Cleaning\<close>

text \<open>
  \<^verbatim>\<open>_coerce_column\<close>. \<^verbatim>\<open>pd.to_numeric(errors='coerce')\<close> turns what does not
  convert into a null; \<^verbatim>\<open>astype(str)\<close> turns every cell, a null too, into a string.
\<close>

definition astype_str :: "pandas \<Rightarrow> cell \<Rightarrow> cell" where
  "astype_str lib c = (case c of Null \<Rightarrow> Str ''nan'' | Num r \<Rightarrow> Str (num_to_str lib r) | Str s \<Rightarrow> Str s)"

definition to_numeric_cell :: "pandas \<Rightarrow> cell \<Rightarrow> cell" where
  "to_numeric_cell lib c = (case to_numeric lib c of None \<Rightarrow> Null | Some r \<Rightarrow> Num r)"

definition to_numeric_series :: "pandas \<Rightarrow> series \<Rightarrow> series" where
  "to_numeric_series lib s =
     (let vs = map (to_numeric_cell lib) (vals s) in \<lparr> dtype = numeric_dtype lib vs, vals = vs \<rparr>)"

definition coerce_column :: "pandas \<Rightarrow> series \<Rightarrow> string \<Rightarrow> series" where
  "coerce_column lib s target_dtype =
     (if target_dtype = ''int64'' \<or> target_dtype = ''float64'' then to_numeric_series lib s
      else if target_dtype = ''datetime64[ns]''
        then \<lparr> dtype = ''datetime64[ns]'', vals = map (to_datetime_coerce lib) (vals s) \<rparr>
      else if target_dtype = ''object''
        then \<lparr> dtype = ''object'', vals = map (astype_str lib) (vals s) \<rparr>
      else s)"

text \<open>Assignment to a column that exists: \<^verbatim>\<open>df[col] = s\<close>.\<close>

definition set_column :: "dataframe \<Rightarrow> string \<Rightarrow> series \<Rightarrow> dataframe" where
  "set_column df col s = map (\<lambda>(c, old). if c = col then (c, s) else (c, old)) df"

definition drop_column :: "dataframe \<Rightarrow> string \<Rightarrow> dataframe" where
  "drop_column df col = filter (\<lambda>(c, s). c \<noteq> col) df"

definition columns :: "dataframe \<Rightarrow> string list" where
  "columns df = map fst df"

text \<open>\<^verbatim>\<open>len(df)\<close>: the number of rows, read off the first column.\<close>

definition n_rows :: "dataframe \<Rightarrow> nat" where
  "n_rows df = (case df of [] \<Rightarrow> 0 | (c, s) # rest \<Rightarrow> length (vals s))"

text \<open>\<^verbatim>\<open>df.empty\<close>: no column or no row.\<close>

definition df_empty :: "dataframe \<Rightarrow> bool" where
  "df_empty df = (df = [] \<or> n_rows df = 0)"

text \<open>Python's truth value of the optional target column name.\<close>

definition truthy :: "string option \<Rightarrow> bool" where
  "truthy t = (case t of None \<Rightarrow> False | Some s \<Rightarrow> s \<noteq> [])"

text \<open>The name the optional target column stands for.\<close>

definition target_name :: "string option \<Rightarrow> string" where
  "target_name t = (case t of None \<Rightarrow> [] | Some s \<Rightarrow> s)"

text \<open>
  Step 3 of \<^verbatim>\<open>validate_and_clean\<close>: the loop over \<^verbatim>\<open>column_reports.items()\<close>.
  The state is the cleaned table with the lists of dropped and of coerced columns.
\<close>

fun clean_loop ::
  "pandas \<Rightarrow> string option \<Rightarrow> (string \<times> ColumnHealth) list \<Rightarrow>
     dataframe \<times> string list \<times> string list \<Rightarrow> dataframe \<times> string list \<times> string list" where
  "clean_loop lib target_col [] st = st"
| "clean_loop lib target_col ((col_name, health) # reports) (cleaned_df, dropped_cols, coerced_cols) =
     (if Some col_name = target_col then
        clean_loop lib target_col reports (cleaned_df, dropped_cols, coerced_cols)
      else if recommended_action health = ''drop'' then
        clean_loop lib target_col reports
          (drop_column cleaned_df col_name, dropped_cols @ [col_name], coerced_cols)
      else if recommended_action health = ''coerce'' then
        clean_loop lib target_col reports
          (case map_of cleaned_df col_name of
             None \<Rightarrow> cleaned_df
           | Some s \<Rightarrow>
               set_column cleaned_df col_name
                 (coerce_column lib s (case coerce_to_dtype health of None \<Rightarrow> [] | Some d \<Rightarrow> d)),
           dropped_cols, coerced_cols @ [col_name])
      else clean_loop lib target_col reports (cleaned_df, dropped_cols, coerced_cols))"

text \<open>\<^verbatim>\<open>_clean_target_column\<close>: the table and the target's health record, updated.\<close>

definition clean_target_column ::
  "pandas \<Rightarrow> dataframe \<Rightarrow> string \<Rightarrow> ColumnHealth \<Rightarrow> string \<Rightarrow> dataframe \<times> ColumnHealth" where
  "clean_target_column lib df target_col target_health problem_type =
     (case map_of df target_col of
        None \<Rightarrow> (df, target_health)
      | Some s \<Rightarrow>
          if problem_type = ''regression'' then
            (if inferred_type target_health \<noteq> ''numeric'' then
               (set_column df target_col (to_numeric_series lib s),
                target_health\<lparr> coerce_to_dtype := Some ''float64'', inferred_type := ''numeric'' \<rparr>)
             else (df, target_health))
          else if problem_type = ''classification'' then
            (if inferred_type target_health = ''numeric'' \<and> nunique (vals s) < 20 then
               (set_column df target_col \<lparr> dtype = ''object'', vals = map (astype_str lib) (vals s) \<rparr>,
                target_health\<lparr> inferred_type := ''categorical'' \<rparr>)
             else (df, target_health))
          else (df, target_health))"

text \<open>Step 5: \<^verbatim>\<open>cleaned_df[~null_target_mask].reset_index(drop=True)\<close>.\<close>

definition select_mask :: "bool list \<Rightarrow> dataframe \<Rightarrow> dataframe" where
  "select_mask keep df =
     map (\<lambda>(c, s). (c, s\<lparr> vals := map snd (filter fst (zip keep (vals s))) \<rparr>)) df"

definition remove_null_targets :: "dataframe \<Rightarrow> string \<Rightarrow> dataframe" where
  "remove_null_targets df target_col =
     (case map_of df target_col of
        None \<Rightarrow> df
      | Some s \<Rightarrow>
          if list_ex isna (vals s) then select_mask (map (\<lambda>c. \<not> isna c) (vals s)) df
          else df)"

datatype overall_issue =
    ColumnsDropped nat      \<comment> \<open>"Warning: n columns dropped (>50% of original)"\<close>
  | RowsRemoved nat         \<comment> \<open>"Warning: n rows removed (>50% of original)"\<close>

record DatasetHealthReport =
  total_rows :: nat
  total_columns :: nat
  valid_columns :: "string list"
  dropped_columns :: "string list"
  coerced_columns :: "string list"
  column_reports :: "(string \<times> ColumnHealth) list"
  target_column_health :: "ColumnHealth option"
  overall_issues :: "overall_issue list"
  is_valid :: bool
  recommended_problem_type :: "string option"

text \<open>Steps 1 and 2: the health record of every column, and what they say of the target.\<close>

definition reports_of :: "DataValidator \<Rightarrow> pandas \<Rightarrow> dataframe \<Rightarrow> (string \<times> ColumnHealth) list" where
  "reports_of self lib df = map (\<lambda>(c, s). (c, analyze_column self lib s c)) df"

definition target_health_of ::
  "DataValidator \<Rightarrow> pandas \<Rightarrow> dataframe \<Rightarrow> string option \<Rightarrow> ColumnHealth option" where
  "target_health_of self lib df target_col =
     (if truthy target_col then map_of (reports_of self lib df) (target_name target_col)
      else None)"

definition recommended_of ::
  "DataValidator \<Rightarrow> pandas \<Rightarrow> dataframe \<Rightarrow> string option \<Rightarrow> string option" where
  "recommended_of self lib df target_col =
     (if truthy target_col then
        (case (map_of df (target_name target_col), target_health_of self lib df target_col) of
           (Some s, Some h) \<Rightarrow> Some (infer_problem_type self lib s h)
         | other \<Rightarrow> None)
      else None)"

text \<open>
  Steps 3 to 5 together: the cleaned table, with the lists of dropped and coerced columns
  and the target's health record after cleaning.
\<close>

definition cleaned ::
  "DataValidator \<Rightarrow> pandas \<Rightarrow> dataframe \<Rightarrow> string option \<Rightarrow>
     dataframe \<times> string list \<times> string list \<times> ColumnHealth option" where
  "cleaned self lib df target_col =
     (case clean_loop lib target_col (reports_of self lib df) (df, [], []) of
        (df1, dropped_cols, coerced_cols) \<Rightarrow>
          if truthy target_col then
            (let t = target_name target_col in
             case (if t \<in> set (columns df1)
                   then (case (target_health_of self lib df target_col,
                               recommended_of self lib df target_col) of
                           (Some h, Some p) \<Rightarrow>
                             (case clean_target_column lib df1 t h p of
                                (df2, h2) \<Rightarrow> (df2, Some h2))
                         | other \<Rightarrow> (df1, target_health_of self lib df target_col))
                   else (df1, target_health_of self lib df target_col)) of
               (df2, health) \<Rightarrow> (remove_null_targets df2 t, dropped_cols, coerced_cols, health))
          else (df1, dropped_cols, coerced_cols, None))"

definition validate_and_clean ::
  "DataValidator \<Rightarrow> pandas \<Rightarrow> dataframe option \<Rightarrow> string option \<Rightarrow>
     string error + (dataframe \<times> DatasetHealthReport)" where
  "validate_and_clean self lib df_opt target_col =
     (case df_opt of
        None \<Rightarrow> Inl (ValueError EmptyDataset)
      | Some df \<Rightarrow>
          if df_empty df then Inl (ValueError EmptyDataset)
          else if truthy target_col \<and> target_name target_col \<notin> set (columns df)
            then Inl (ValueError (TargetNotFound (target_name target_col)))
          else
            (case cleaned self lib df target_col of
               (cleaned_df, dropped_cols, coerced_cols, target_health) \<Rightarrow>
                 let valid = filter (\<lambda>c. Some c \<noteq> target_col) (columns cleaned_df) in
                 if length valid = 0 then Inl (ValueError NoValidFeatures)
                 else if truthy target_col \<and> n_rows cleaned_df < 10
                   then Inl (ValueError (InsufficientRows (n_rows cleaned_df)))
                 else
                   let issues1 =
                         (if (of_nat (length dropped_cols) :: rat) > of_nat (length (columns df)) * (1 / 2)
                          then [ColumnsDropped (length dropped_cols)] else []);
                       issues2 =
                         (if (of_nat (n_rows cleaned_df) :: rat) < of_nat (n_rows df) * (1 / 2)
                          then issues1 @ [RowsRemoved (n_rows df - n_rows cleaned_df)]
                          else issues1)
                   in Inr (cleaned_df,
                           \<lparr> total_rows = n_rows cleaned_df,
                             total_columns = length (columns cleaned_df),
                             valid_columns = valid,
                             dropped_columns = dropped_cols,
                             coerced_columns = coerced_cols,
                             column_reports =
                               (case (target_col, target_health) of
                                  (Some t, Some h) \<Rightarrow>
                                    map (\<lambda>(c, r). if c = t then (c, h) else (c, r))
                                      (reports_of self lib df)
                                | other \<Rightarrow> reports_of self lib df),
                             target_column_health = target_health,
                             overall_issues = issues2,
                             is_valid = True,
                             recommended_problem_type = recommended_of self lib df target_col \<rparr>)))"

section \<open>app/services/data\_preprocessing.py\<close>

text \<open>\<^verbatim>\<open>DataPreprocessing._detect_problem_type(y)\<close>.\<close>

definition detect_problem_type :: "pandas \<Rightarrow> series \<Rightarrow> string" where
  "detect_problem_type lib y =
     (let y_clean = series_dropna (vals y) in
      if length y_clean = 0 then ''classification''
      else
        let y_numeric = map (to_numeric lib) y_clean;
            numeric_ratio =
              (of_nat (length (filter (\<lambda>v. v \<noteq> None) y_numeric)) / of_nat (length y_clean) :: rat)
        in if numeric_ratio < 8 / 10 then ''classification''
           else
             let n_unique = length (remdups (numeric_values lib y_clean));
                 is_integer = np_allclose_int (numeric_values lib y_clean)
             in if is_integer \<and> n_unique < 20 then ''classification''
                else if (of_nat n_unique / of_nat (length y_clean) :: rat) < 5 / 100
                then ''classification''
                else ''regression'')"

subsection \<open>build\_pipeline\<close>

datatype preprocessing_reason =
    NoFeaturesFound "string list"  \<comment> \<open>"No valid features found for preprocessing. Removed features: ..."\<close>
  | TargetDropped                  \<comment> \<open>"Target column ... was dropped during validation"\<close>
  | TargetAllNull                  \<comment> \<open>"Target column contains only null values"\<close>
  | TooFewSamples nat              \<comment> \<open>"Only n samples remain - insufficient for training (minimum: 10)"\<close>
  | FitFailed                      \<comment> \<open>"Preprocessing fit failed: ..."\<close>
  | TestTransformFailed            \<comment> \<open>"Test data transform failed: ..."\<close>
  | PreprocessingFailed            \<comment> \<open>"Preprocessing failed: ...", any other exception wrapped\<close>

datatype preprocessing_error = DataPreprocessingError preprocessing_reason

text \<open>
  The three sub-pipelines \<^verbatim>\<open>build_pipeline\<close> composes: median imputation with standard
  scaling; constant imputation with one-hot encoding capped at a number of categories;
  constant imputation with target encoding. A \<^verbatim>\<open>ColumnTransformer\<close> is the list of its
  named transformers with their columns.
\<close>

datatype steps = MedianScale | ConstantOneHot nat | ConstantTarget

type_synonym ColumnTransformer = "(string \<times> steps \<times> string list) list"

text \<open>
  The first loop: a column with no non-null value is removed, one of which more than 80%
  of the non-null values convert to numbers is numeric, any other is categorical. The
  state is \<^verbatim>\<open>(numeric_features, categorical_features, removed_features)\<close>.
\<close>

fun classify_loop ::
  "pandas \<Rightarrow> dataframe \<Rightarrow> string list \<times> string list \<times> string list \<Rightarrow>
     string list \<times> string list \<times> string list" where
  "classify_loop lib [] st = st"
| "classify_loop lib ((col, s) # X) (numeric_features, categorical_features, removed) =
     (let col_data = series_dropna (vals s) in
      if length col_data = 0 then
        classify_loop lib X (numeric_features, categorical_features, removed @ [col])
      else if (of_nat (length (numeric_values lib col_data)) / of_nat (length col_data) :: rat) > 8 / 10
      then classify_loop lib X (numeric_features @ [col], categorical_features, removed)
      else classify_loop lib X (numeric_features, categorical_features @ [col], removed))"

text \<open>
  \<^verbatim>\<open>Series.var()\<close>: the sample variance of the non-null values, NaN (\<open>None\<close>) for
  fewer than two of them.
\<close>

definition var :: "rat list \<Rightarrow> rat option" where
  "var xs =
     (let n = length xs in
      if n < 2 then None
      else let mean = sum_list xs / of_nat n
           in Some (sum_list (map (\<lambda>x. (x - mean) * (x - mean)) xs) / of_nat (n - 1)))"

definition low_variance_cols :: "pandas \<Rightarrow> dataframe \<Rightarrow> string list \<Rightarrow> rat \<Rightarrow> string list" where
  "low_variance_cols lib X numeric_features variance_threshold =
     filter (\<lambda>col. case map_of X col of
                      None \<Rightarrow> False
                    | Some s \<Rightarrow>
                        (case var (numeric_values lib (vals s)) of
                           None \<Rightarrow> False
                         | Some v \<Rightarrow> v \<le> variance_threshold))
       numeric_features"

text \<open>
  The second loop, over \<^verbatim>\<open>categorical_features\<close>. The state is
  \<^verbatim>\<open>(removed_features, high_cardinality_cats, low_cardinality_cats)\<close>. A name that is
  no column of \<open>X\<close> raises inside the \<^verbatim>\<open>try\<close> and is removed by the handler.
\<close>

fun cardinality_loop ::
  "dataframe \<Rightarrow> string list \<Rightarrow> string list \<times> string list \<times> string list \<Rightarrow>
     string list \<times> string list \<times> string list" where
  "cardinality_loop X [] st = st"
| "cardinality_loop X (col # cols) (removed, high_cardinality_cats, low_cardinality_cats) =
     (case map_of X col of
        None \<Rightarrow> cardinality_loop X cols (removed @ [col], high_cardinality_cats, low_cardinality_cats)
      | Some s \<Rightarrow>
          let n_unique = nunique (vals s);
              n_samples = length (series_dropna (vals s))
          in if n_unique > 1000 \<or> n_unique = n_samples then
               cardinality_loop X cols (removed @ [col], high_cardinality_cats, low_cardinality_cats)
             else if n_unique > 50 \<or> (of_nat n_unique / of_nat n_samples :: rat) > 1 / 2 then
               cardinality_loop X cols (removed, high_cardinality_cats @ [col], low_cardinality_cats)
             else
               cardinality_loop X cols (removed, high_cardinality_cats, low_cardinality_cats @ [col]))"

text \<open>
  \<^verbatim>\<open>build_pipeline\<close>: the unfitted \<^verbatim>\<open>ColumnTransformer\<close> and the updated
  \<^verbatim>\<open>self.removed_features\<close>.
\<close>

definition build_pipeline ::
  "pandas \<Rightarrow> string list \<Rightarrow> dataframe \<Rightarrow> bool \<Rightarrow> rat \<Rightarrow>
     preprocessing_error + (ColumnTransformer \<times> string list)" where
  "build_pipeline lib removed_features X use_target_encoder variance_threshold =
     (case classify_loop lib X ([], [], removed_features) of
        (numeric0, categorical_features, removed1) \<Rightarrow>
          let low_var = (if variance_threshold > 0 \<and> numeric0 \<noteq> []
                         then low_variance_cols lib X numeric0 variance_threshold else []);
              numeric_features = filter (\<lambda>col. col \<notin> set low_var) numeric0;
              removed2 = removed1 @ low_var
          in case cardinality_loop X categorical_features (removed2, [], []) of
               (removed3, high_cardinality_cats, low_cardinality_cats) \<Rightarrow>
                 let transformers =
                       (if numeric_features \<noteq> [] then [(''num'', MedianScale, numeric_features)] else [])
                       @ (if low_cardinality_cats \<noteq> []
                          then [(''cat_low'', ConstantOneHot 100, low_cardinality_cats)] else [])
                       @ (if high_cardinality_cats \<noteq> []
                          then [(''cat_high'',
                                 (if use_target_encoder then ConstantTarget else ConstantOneHot 50),
                                 high_cardinality_cats)]
                          else [])
                 in if transformers = [] then Inl (DataPreprocessingError (NoFeaturesFound removed3))
                    else Inr (transformers, removed3))"

subsection \<open>preprocess\_data\<close>

text \<open>
  scikit-learn, as \<^verbatim>\<open>preprocess_data\<close> uses it. The type variables stand for a fitted
  \<^verbatim>\<open>ColumnTransformer\<close> and for a feature matrix. \<open>None\<close> is a raised exception.
  \<open>shuffle\<close> is the permutation of the row numbers drawn for a random state; the
  stratified splitter answers with the two index lists or raises ValueError.
\<close>

record ('f, 'm) sklearn =
  shuffle :: "nat \<Rightarrow> nat \<Rightarrow> nat list"
  stratified_shuffle :: "nat \<Rightarrow> cell list \<Rightarrow> nat \<Rightarrow> nat \<Rightarrow> (nat list \<times> nat list) option"
  ct_fit_transform :: "ColumnTransformer \<Rightarrow> dataframe \<Rightarrow> series \<Rightarrow> ('f \<times> 'm) option"
  ct_transform :: "'f \<Rightarrow> dataframe \<Rightarrow> 'm option"
  get_feature_names_out :: "'f \<Rightarrow> string list option"
  transformers_fitted :: "'f \<Rightarrow> ColumnTransformer"
  n_columns :: "'m \<Rightarrow> nat"

text \<open>
  \<^verbatim>\<open>train_test_split(X, y, test_size, random_state, stratify)\<close> on \<open>n\<close> rows, as index
  lists of the training and of the test rows. scikit-learn refuses a float \<^verbatim>\<open>test_size\<close> outside the open
  interval from 0 to 1, takes \<open>ceil (test_size * n)\<close> rows for the test set and the rest
  for the training set, and refuses an empty training set.
\<close>

definition train_test_split ::
  "('f, 'm) sklearn \<Rightarrow> nat \<Rightarrow> nat \<Rightarrow> rat \<Rightarrow> cell list option \<Rightarrow> (nat list \<times> nat list) option" where
  "train_test_split sk random_state n test_size stratify =
     (if test_size \<le> 0 \<or> test_size \<ge> 1 then None
      else
        let n_test = nat \<lceil>test_size * of_nat n\<rceil>;
            n_train = n - n_test
        in if n_train = 0 then None
           else case stratify of
                  None \<Rightarrow>
                    let permutation = shuffle sk random_state n
                    in Some (take n_train (drop n_test permutation), take n_test permutation)
                | Some y \<Rightarrow> stratified_shuffle sk random_state y n_train n_test)"

text \<open>Positional row selection, \<^verbatim>\<open>iloc\<close>; a row number outside the table selects a null.\<close>

definition take_cells :: "nat list \<Rightarrow> cell list \<Rightarrow> cell list" where
  "take_cells idx xs = map (\<lambda>i. if i < length xs then xs ! i else Null) idx"

definition take_rows :: "nat list \<Rightarrow> dataframe \<Rightarrow> dataframe" where
  "take_rows idx df = map (\<lambda>(c, s). (c, s\<lparr> vals := take_cells idx (vals s) \<rparr>)) df"

text \<open>Step 4, first part: the test fraction, raised for a small table.\<close>

definition adjust_test_size :: "nat \<Rightarrow> rat \<Rightarrow> rat" where
  "adjust_test_size n test_size =
     (let min_test_samples = 5 in
      if of_nat n * test_size < min_test_samples
      then max (min_test_samples / of_nat n) (1 / 10)
      else test_size)"

text \<open>
  Step 4, second part: the split, stratified for a classification target with fewer than
  20 classes, and tried again without stratification after a ValueError.
\<close>

definition split_dataset ::
  "('f, 'm) sklearn \<Rightarrow> nat \<Rightarrow> dataframe \<Rightarrow> series \<Rightarrow> string \<Rightarrow> rat \<Rightarrow>
     (dataframe \<times> dataframe \<times> series \<times> series) option" where
  "split_dataset sk random_state X y problem_type test_size =
     (let stratify = (if problem_type = ''classification'' \<and> nunique (vals y) < 20
                      then Some (vals y) else None);
          n = n_rows X
      in case (case train_test_split sk random_state n test_size stratify of
                 None \<Rightarrow> train_test_split sk random_state n test_size None
               | Some r \<Rightarrow> Some r) of
           None \<Rightarrow> None
         | Some (train_idx, test_idx) \<Rightarrow>
             Some (take_rows train_idx X, take_rows test_idx X,
                   y\<lparr> vals := take_cells train_idx (vals y) \<rparr>,
                   y\<lparr> vals := take_cells test_idx (vals y) \<rparr>))"

record preprocessing_metadata =
  original_features :: "string list"
  n_original_features :: int
  n_processed_features :: nat
  removed_features :: "string list"
  train_samples :: nat
  test_samples :: nat
  problem_type :: string
  target_column :: string
  md_test_size :: rat
  validation_dropped_columns :: "string list"
  validation_coerced_columns :: "string list"
  validation_overall_issues :: "overall_issue list"

record ('f, 'm) preprocessed =
  X_train_processed :: 'm
  X_test_processed :: 'm
  y_train_split :: series
  y_test_split :: series
  preprocessor :: 'f
  metadata :: preprocessing_metadata
  feature_names :: "string list"

text \<open>
  Step 2 with its defences: the feature table and the target column of the cleaned table,
  without the rows whose target is null.
\<close>

definition separate_features_target ::
  "dataframe \<Rightarrow> string \<Rightarrow> preprocessing_error + (dataframe \<times> series)" where
  "separate_features_target cleaned_df target_col =
     (case map_of cleaned_df target_col of
        None \<Rightarrow> Inl (DataPreprocessingError TargetDropped)
      | Some y0 \<Rightarrow>
          let X0 = drop_column cleaned_df target_col in
          if list_all isna (vals y0) then Inl (DataPreprocessingError TargetAllNull)
          else
            let keep = map (\<lambda>c. \<not> isna c) (vals y0);
                X = (if list_ex isna (vals y0) then select_mask keep X0 else X0);
                y = (if list_ex isna (vals y0)
                     then y0\<lparr> vals := map snd (filter fst (zip keep (vals y0))) \<rparr> else y0)
            in if n_rows X < 10 then Inl (DataPreprocessingError (TooFewSamples (n_rows X)))
               else Inr (X, y))"

text \<open>
  Steps 5 and 6: the pipeline is built from the training features, fitted on the training
  features and labels, and applied to the test features.
\<close>

definition fit_and_transform ::
  "pandas \<Rightarrow> ('f, 'm) sklearn \<Rightarrow> string list \<Rightarrow> dataframe \<Rightarrow> series \<Rightarrow> dataframe \<Rightarrow> bool \<Rightarrow> rat \<Rightarrow>
     preprocessing_error + ('f \<times> 'm \<times> 'm \<times> string list)" where
  "fit_and_transform lib sk removed0 X_train ytr X_test use_target_encoder variance_threshold =
     (case build_pipeline lib removed0 X_train use_target_encoder variance_threshold of
        Inl e \<Rightarrow> Inl e
      | Inr (ct, removed) \<Rightarrow>
          (case ct_fit_transform sk ct X_train ytr of
             None \<Rightarrow> Inl (DataPreprocessingError FitFailed)
           | Some (fitted, Xtr_p) \<Rightarrow>
               (case ct_transform sk fitted X_test of
                  None \<Rightarrow> Inl (DataPreprocessingError TestTransformFailed)
                | Some Xte_p \<Rightarrow> Inr (fitted, Xtr_p, Xte_p, removed))))"

text \<open>Step 7: \<^verbatim>\<open>_get_feature_names\<close>, with its fallback to the transformers' columns.\<close>

definition get_feature_names :: "('f, 'm) sklearn \<Rightarrow> 'f \<Rightarrow> string list" where
  "get_feature_names sk fitted =
     (case get_feature_names_out sk fitted of
        Some names \<Rightarrow> names
      | None \<Rightarrow>
          concat (map (\<lambda>(nm, st, cols). cols)
            (filter (\<lambda>(nm, st, cols). nm \<noteq> ''remainder'') (transformers_fitted sk fitted))))"

text \<open>
  \<^verbatim>\<open>DataPreprocessing.preprocess_data\<close>, for a preprocessing object whose validator is
  \<open>validator\<close> and whose \<^verbatim>\<open>removed_features\<close> is \<open>removed0\<close>. Every exception that
  is not a \<^verbatim>\<open>DataPreprocessingError\<close> is wrapped into one by the outer handler.
\<close>

definition preprocess_data ::
  "DataValidator \<Rightarrow> string list \<Rightarrow> pandas \<Rightarrow> ('f, 'm) sklearn \<Rightarrow> dataframe option \<Rightarrow> string \<Rightarrow>
     rat \<Rightarrow> bool \<Rightarrow> rat \<Rightarrow> nat \<Rightarrow> preprocessing_error + ('f, 'm) preprocessed" where
  "preprocess_data validator removed0 lib sk df target_col test_size use_target_encoder
       variance_threshold random_state =
     (case validate_and_clean validator lib df (Some target_col) of
        Inl e \<Rightarrow> Inl (DataPreprocessingError PreprocessingFailed)
      | Inr (cleaned_df, health_report) \<Rightarrow>
          (case separate_features_target cleaned_df target_col of
             Inl e \<Rightarrow> Inl e
           | Inr (X, y) \<Rightarrow>
               let ptype = (case recommended_problem_type health_report of
                              None \<Rightarrow> detect_problem_type lib y
                            | Some p \<Rightarrow> if p = [] then detect_problem_type lib y else p);
                   test_size' = adjust_test_size (n_rows X) test_size
               in case split_dataset sk random_state X y ptype test_size' of
                    None \<Rightarrow> Inl (DataPreprocessingError PreprocessingFailed)
                  | Some (X_train, X_test, ytr, yte) \<Rightarrow>
                      (case fit_and_transform lib sk removed0 X_train ytr X_test use_target_encoder
                              variance_threshold of
                         Inl e \<Rightarrow> Inl e
                       | Inr (fitted, Xtr_p, Xte_p, removed) \<Rightarrow>
                           (case df of
                              None \<Rightarrow> Inl (DataPreprocessingError PreprocessingFailed)
                            | Some d \<Rightarrow>
                                Inr \<lparr> X_train_processed = Xtr_p,
                                      X_test_processed = Xte_p,
                                      y_train_split = ytr,
                                      y_test_split = yte,
                                      preprocessor = fitted,
                                      metadata =
                                        \<lparr> original_features = columns (drop_column d target_col),
                                          n_original_features = int (length (columns d)) - 1,
                                          n_processed_features = n_columns sk Xtr_p,
                                          removed_features = removed,
                                          train_samples = n_rows X_train,
                                          test_samples = n_rows X_test,
                                          problem_type = ptype,
                                          target_column = target_col,
                                          md_test_size = test_size',
                                          validation_dropped_columns = dropped_columns health_report,
                                          validation_coerced_columns = coerced_columns health_report,
                                          validation_overall_issues = overall_issues health_report \<rparr>,
                                      feature_names = get_feature_names sk fitted \<rparr>))))"

section \<open>app/services/training\_service.py\<close>




text \<open>
  The scikit-learn scorers \<^verbatim>\<open>_classification_metrics\<close> calls are parameters of the
  model; \<open>None\<close> stands for a raised exception. The three averaged scorers take the
  value of \<^verbatim>\<open>average\<close>; \<^verbatim>\<open>zero_division=0\<close> is fixed in every call.
\<close>

record sklearn_metrics =
  accuracy_score :: "int list \<Rightarrow> int list \<Rightarrow> rat option"
  precision_score :: "int list \<Rightarrow> int list \<Rightarrow> string \<Rightarrow> rat option"
  recall_score :: "int list \<Rightarrow> int list \<Rightarrow> string \<Rightarrow> rat option"
  f1_score :: "int list \<Rightarrow> int list \<Rightarrow> string \<Rightarrow> rat option"

record metrics =
  m_accuracy :: rat
  m_precision :: rat
  m_recall :: rat
  m_f1_score :: rat

text \<open>
  \<^verbatim>\<open>ModelTrainer._classification_metrics(y_true, y_pred)\<close>. An exception of
  \<^verbatim>\<open>accuracy_score\<close> propagates (\<open>None\<close>); one of the three scorers inside the
  \<^verbatim>\<open>try\<close> selects the fallback that repeats the accuracy.
\<close>

definition classification_metrics ::
  "sklearn_metrics \<Rightarrow> rat list \<Rightarrow> rat list \<Rightarrow> metrics option" where
  "classification_metrics sk y_true0 y_pred0 =
     (let y_true = map astype_int y_true0;
          y_pred = map astype_int y_pred0;
          unique_classes = np_unique y_true;
          n_cls = length unique_classes
      in case accuracy_score sk y_true y_pred of
           None \<Rightarrow> None
         | Some accuracy \<Rightarrow>
             if n_cls = 1 then
               Some \<lparr> m_accuracy = accuracy, m_precision = 1, m_recall = 1, m_f1_score = 1 \<rparr>
             else
               let average = (if n_cls = 2 then ''binary'' else ''weighted'') in
               (case precision_score sk y_true y_pred average of
                  None \<Rightarrow> Some \<lparr> m_accuracy = accuracy, m_precision = accuracy,
                                  m_recall = accuracy, m_f1_score = accuracy \<rparr>
                | Some precision \<Rightarrow>
                   (case recall_score sk y_true y_pred average of
                      None \<Rightarrow> Some \<lparr> m_accuracy = accuracy, m_precision = accuracy,
                                      m_recall = accuracy, m_f1_score = accuracy \<rparr>
                    | Some recall \<Rightarrow>
                       (case f1_score sk y_true y_pred average of
                          None \<Rightarrow> Some \<lparr> m_accuracy = accuracy, m_precision = accuracy,
                                          m_recall = accuracy, m_f1_score = accuracy \<rparr>
                        | Some f1 \<Rightarrow>
                            Some \<lparr> m_accuracy = accuracy, m_precision = precision,
                                   m_recall = recall, m_f1_score = f1 \<rparr>))))"

section \<open>Properties of the Safe Label Encoder\<close>

lemma index_of_None: "index_of x xs = None \<longleftrightarrow> x \<notin> set xs"
  by (induction xs) auto

lemma index_of_Some: "index_of x xs = Some k \<Longrightarrow> k < length xs \<and> xs ! k = x"
  by (induction xs arbitrary: k) (auto split: if_splits)

lemma index_of_mem: "x \<in> set xs \<Longrightarrow> \<exists>k. index_of x xs = Some k"
  using index_of_None [of x xs] by (cases "index_of x xs") auto

lemma le_transform_mem:
  "x \<in> set cls \<Longrightarrow> \<exists>k. le_transform cls x = Inr (int k) \<and> k < length cls \<and> cls ! k = x"
  using index_of_mem [of x cls] index_of_Some [of x cls]
  by (auto simp: le_transform_def)

lemma np_argmax_less: "cs \<noteq> [] \<Longrightarrow> np_argmax cs < length cs"
proof (induction cs)
  case Nil then show ?case by simp
next
  case (Cons c cs)
  show ?case
  proof (cases "\<forall>e\<in>set cs. e \<le> c")
    case True then show ?thesis by simp
  next
    case False
    then have "cs \<noteq> []" by auto
    with Cons.IH False show ?thesis by simp
  qed
qed

lemma np_argmax_max: "d \<in> set cs \<Longrightarrow> d \<le> cs ! np_argmax cs"
proof (induction cs arbitrary: d)
  case Nil then show ?case by simp
next
  case (Cons c cs)
  show ?case
  proof (cases "\<forall>e\<in>set cs. e \<le> c")
    case True with Cons.prems show ?thesis by auto
  next
    case False
    then obtain e where e: "e \<in> set cs" "\<not> e \<le> c" by blast
    from Cons.IH [OF e(1)] e(2) have "c \<le> cs ! np_argmax cs" by simp
    with Cons False show ?thesis by auto
  qed
qed

lemma set_np_unique: "set (np_unique ys) = set ys"
  by (simp add: np_unique_def)

lemma distinct_np_unique: "distinct (np_unique ys)"
  by (simp add: np_unique_def)

text \<open>The mode chosen by fit is a class, and no label is more frequent.\<close>

lemma mode_props:
  assumes "ys \<noteq> []"
  defines "m \<equiv> np_unique ys ! np_argmax (np_unique_counts ys)"
  shows "m \<in> set ys" and "count_list ys x \<le> count_list ys m"
proof -
  let ?u = "np_unique ys" and ?c = "np_unique_counts ys"
  have "set ?u = set ys" by (simp add: set_np_unique)
  with assms(1) have "?u \<noteq> []" by auto
  then have ne: "?c \<noteq> []" by (simp add: np_unique_counts_def)
  have len: "length ?c = length ?u" by (simp add: np_unique_counts_def)
  have lt: "np_argmax ?c < length ?u" using np_argmax_less [OF ne] len by simp
  then have "m \<in> set ?u" unfolding m_def by simp
  then show "m \<in> set ys" by (simp add: set_np_unique)
  have cm: "?c ! np_argmax ?c = count_list ys m"
    unfolding m_def using lt by (simp add: np_unique_counts_def)
  show "count_list ys x \<le> count_list ys m"
  proof (cases "x \<in> set ys")
    case True
    then have "count_list ys x \<in> set ?c"
      by (simp add: np_unique_counts_def set_np_unique)
    from np_argmax_max [OF this] cm show ?thesis by simp
  next
    case False
    then show ?thesis by (simp add: count_list_0_iff)
  qed
qed

lemma fit_Inr:
  assumes "fit self0 y_train = Inr self"
  shows "dropna y_train \<noteq> []"
    and "classes_attr self = Some (np_unique (dropna y_train))"
    and "mode_class_attr self =
           Some (np_unique (dropna y_train) ! np_argmax (np_unique_counts (dropna y_train)))"
    and "handle_unknown self = handle_unknown self0"
    and "unknown_value self = unknown_value self0"
    and "unseen_labels_attr self = unseen_labels_attr self0"
  using assms by (auto simp: fit_def Let_def split: if_splits)

lemma fit_total: "dropna y_train \<noteq> [] \<Longrightarrow> \<exists>self. fit self0 y_train = Inr self"
  by (simp add: fit_def Let_def)

lemma transform_loop_rel:
  fixes cls :: "'a list" and self :: "'a SafeLabelEncoder"
  assumes m: "mode_class_attr self = Some m"
  defines "R \<equiv> (\<lambda>v c. case v of
        None \<Rightarrow> c = unknown_value self
      | Some l \<Rightarrow>
          if l \<in> set cls then 0 \<le> c \<and> nat c < length cls \<and> cls ! nat c = l
          else if handle_unknown self = ''use_mode''
               then 0 \<le> c \<and> nat c < length cls \<and> cls ! nat c = m
               else c = unknown_value self)"
  shows "transform_loop self cls i y = Inr (enc, msk, unseen) \<Longrightarrow> list_all2 R y enc"
proof (induction y arbitrary: i enc msk unseen)
  case Nil
  then show ?case by simp
next
  case (Cons v y)
  have le: "\<And>x k. le_transform cls x = Inr k \<Longrightarrow> 0 \<le> k \<and> nat k < length cls \<and> cls ! nat k = x"
    by (auto simp: le_transform_def split: option.splits dest: index_of_Some)
  show ?case
  proof (cases v)
    case None
    with Cons.prems obtain enc' msk' where
      t: "transform_loop self cls (Suc i) y = Inr (enc', msk', unseen)"
      and e: "enc = unknown_value self # enc'"
      by (auto split: if_splits sum.splits prod.splits)
    have "R v (unknown_value self)" using None by (simp add: R_def)
    with Cons.IH [OF t] e show ?thesis by simp
  next
    case (Some l)
    show ?thesis
    proof (cases "l \<in> set cls")
      case True
      with Some Cons.prems obtain k enc' msk' where
        k: "le_transform cls l = Inr k"
        and t: "transform_loop self cls (Suc i) y = Inr (enc', msk', unseen)"
        and e: "enc = k # enc'"
        by (auto split: sum.splits prod.splits)
      have "R v k" using Some True le [OF k] by (simp add: R_def)
      with Cons.IH [OF t] e show ?thesis by simp
    next
      case False
      show ?thesis
      proof (cases "handle_unknown self = ''use_mode''")
        case True
        with Some False m Cons.prems obtain k enc' msk' unseen' where
          k: "le_transform cls m = Inr k"
          and t: "transform_loop self cls (Suc i) y = Inr (enc', msk', unseen')"
          and e: "enc = k # enc'"
          by (auto split: sum.splits prod.splits)
        have "R v k" using Some False True le [OF k] by (simp add: R_def)
        with Cons.IH [OF t] e show ?thesis by simp
      next
        case nm: False
        with Some False Cons.prems obtain enc' msk' unseen' where
          t: "transform_loop self cls (Suc i) y = Inr (enc', msk', unseen')"
          and e: "enc = unknown_value self # enc'"
          by (auto split: if_splits sum.splits prod.splits)
        have "R v (unknown_value self)" using Some False nm by (simp add: R_def)
        with Cons.IH [OF t] e show ?thesis by simp
      qed
    qed
  qed
qed

lemma loop_step_null:
  assumes "transform_loop self cls (Suc i) y = Inr (enc', msk', unseen')"
    and "handle_unknown self \<noteq> ''error''"
  shows "\<exists>r. transform_loop self cls i (None # y) = Inr r"
  using assms by simp

lemma loop_step_seen:
  assumes "transform_loop self cls (Suc i) y = Inr (enc', msk', unseen')"
    and "l \<in> set cls" and "le_transform cls l = Inr (int k)"
  shows "\<exists>r. transform_loop self cls i (Some l # y) = Inr r"
  using assms by simp

lemma loop_step_unseen:
  assumes "transform_loop self cls (Suc i) y = Inr (enc', msk', unseen')"
    and "l \<notin> set cls" and "le_transform cls m = Inr (int km)"
    and "handle_unknown self \<noteq> ''error''" and "mode_class_attr self = Some m"
  shows "\<exists>r. transform_loop self cls i (Some l # y) = Inr r"
  using assms by simp

lemma transform_loop_total:
  assumes "handle_unknown self \<noteq> ''error'' \<or> (\<forall>v\<in>set y. \<exists>l. v = Some l \<and> l \<in> set cls)"
    and "mode_class_attr self = Some m" and "m \<in> set cls"
  shows "\<exists>r. transform_loop self cls i y = Inr r"
  using assms(1)
proof (induction y arbitrary: i)
  case Nil
  then show ?case by simp
next
  case (Cons w y)
  from Cons.prems have "handle_unknown self \<noteq> ''error'' \<or> (\<forall>v\<in>set y. \<exists>l. v = Some l \<and> l \<in> set cls)"
    by auto
  from Cons.IH [OF this] obtain r0 where r0: "transform_loop self cls (Suc i) y = Inr r0"
    by blast
  obtain enc' msk' unseen' where "r0 = (enc', msk', unseen')"
    by (cases r0) auto
  with r0 have r: "transform_loop self cls (Suc i) y = Inr (enc', msk', unseen')"
    by simp
  from le_transform_mem [OF assms(3)]
  obtain km where km: "le_transform cls m = Inr (int km)" by blast
  show ?case
  proof (cases w)
    case None
    with Cons.prems have "handle_unknown self \<noteq> ''error''" by simp
    from loop_step_null [OF r this] None show ?thesis by simp
  next
    case (Some l)
    show ?thesis
    proof (cases "l \<in> set cls")
      case True
      from le_transform_mem [OF True]
      obtain k where k: "le_transform cls l = Inr (int k)" by blast
      from loop_step_seen [OF r True k] Some show ?thesis by simp
    next
      case False
      with Some Cons.prems have "handle_unknown self \<noteq> ''error''" by simp
      from loop_step_unseen [OF r False km this assms(2)] Some show ?thesis by simp
    qed
  qed
qed


lemma transform_Inr_loop:
  "transform self y = Inr (enc, stats, self') \<Longrightarrow>
     \<exists>cls msk unseen. classes_attr self = Some cls \<and>
        transform_loop self cls 0 y = Inr (enc, msk, unseen)"
  by (auto simp: transform_def Let_def split: option.splits sum.splits prod.splits)

lemma transform_frame:
  "transform self y = Inr (enc, stats, self') \<Longrightarrow>
     classes_attr self' = classes_attr self \<and> mode_class_attr self' = mode_class_attr self \<and>
     handle_unknown self' = handle_unknown self \<and> unknown_value self' = unknown_value self"
  by (auto simp: transform_def Let_def split: option.splits sum.splits prod.splits if_splits)

lemma transform_of_loop_Inr:
  "classes_attr self = Some cls \<Longrightarrow> transform_loop self cls 0 y = Inr (enc, msk, unseen) \<Longrightarrow>
     \<exists>stats self'. transform self y = Inr (enc, stats, self')"
  by (simp add: transform_def Let_def)


lemma dropna_map_Some: "dropna (map Some ls) = ls"
  by (induction ls) (simp_all add: dropna_def)

lemma inverse_transform_labels:
  assumes "classes_attr self = Some cls"
    and "unknown_value self < 0 \<or> unknown_value self \<ge> int (length cls)"
  shows "list_all2 (\<lambda>l c. 0 \<le> c \<and> nat c < length cls \<and> cls ! nat c = l) ls enc \<Longrightarrow>
         inverse_transform self enc = Inr (map Label ls)"
proof (induction ls enc rule: list_all2_induct)
  case Nil
  then show ?case by simp
next
  case (Cons l ls c enc)
  from Cons.hyps(1) assms(2) have "c \<noteq> unknown_value self" by linarith
  moreover from Cons.hyps(1) have "\<not> (c < 0 \<or> c \<ge> int (length cls))" by linarith
  ultimately show ?case using Cons.IH Cons.hyps(1) assms(1) by simp
qed

lemma loop_rel_seen:
  assumes "mode_class_attr self = Some m"
    and "transform_loop self cls i (map Some ls) = Inr (enc, msk, unseen)"
    and "set ls \<subseteq> set cls"
  shows "list_all2 (\<lambda>l c. 0 \<le> c \<and> nat c < length cls \<and> cls ! nat c = l) ls enc"
proof -
  from transform_loop_rel [OF assms(1) assms(2)]
  have "list_all2 (\<lambda>l c. (if l \<in> set cls then 0 \<le> c \<and> nat c < length cls \<and> cls ! nat c = l
          else if handle_unknown self = ''use_mode''
               then 0 \<le> c \<and> nat c < length cls \<and> cls ! nat c = m
               else c = unknown_value self)) ls enc"
    by (simp add: list_all2_map1)
  moreover have "\<And>i. i < length ls \<Longrightarrow> ls ! i \<in> set cls"
    using assms(3) by auto
  ultimately show ?thesis
    by (simp add: list_all2_conv_all_nth)
qed

text \<open>
  Claim C6. Fitting a fresh encoder (default unknown sentinel \<open>-1\<close>, any strategy) on a
  non-empty label vector without nulls, transforming that vector and inverse-transforming
  the codes gives back exactly the original labels: every decoded element is a label,
  none is a placeholder.
\<close>

theorem roundtrip:
  fixes ls :: "'a::linorder list"
  assumes "ls \<noteq> []"
  shows "\<exists>self enc stats self'.
           fit (init hu None) (map Some ls) = Inr self \<and>
           transform self (map Some ls) = Inr (enc, stats, self') \<and>
           inverse_transform self' enc = Inr (map Label ls)"
proof -
  let ?y = "map Some ls"
  have dn: "dropna ?y \<noteq> []" using assms by (simp add: dropna_map_Some)
  from fit_total [OF dn] obtain self :: "'a SafeLabelEncoder"
    where f: "fit (init hu None) ?y = Inr self" by blast
  let ?cls = "np_unique ls"
  let ?m = "?cls ! np_argmax (np_unique_counts ls)"
  have c: "classes_attr self = Some ?cls" using fit_Inr(2) [OF f] by (simp add: dropna_map_Some)
  have m: "mode_class_attr self = Some ?m" using fit_Inr(3) [OF f] by (simp add: dropna_map_Some)
  have uv: "unknown_value self = - 1" using fit_Inr(5) [OF f] by (simp add: init_def)
  have min: "?m \<in> set ?cls" using mode_props(1) [OF assms] by (simp add: set_np_unique)
  have seen: "\<forall>v\<in>set ?y. \<exists>l. v = Some l \<and> l \<in> set ?cls" by (auto simp: set_np_unique)
  then have "handle_unknown self \<noteq> ''error'' \<or> (\<forall>v\<in>set ?y. \<exists>l. v = Some l \<and> l \<in> set ?cls)"
    by blast
  from transform_loop_total [OF this m min, of 0] obtain r0
    where r0: "transform_loop self ?cls 0 ?y = Inr r0" by blast
  obtain enc msk unseen where "r0 = (enc, msk, unseen)" by (cases r0) auto
  with r0 have l: "transform_loop self ?cls 0 ?y = Inr (enc, msk, unseen)" by simp
  from transform_of_loop_Inr [OF c l] obtain stats self'
    where t: "transform self ?y = Inr (enc, stats, self')" by blast
  have rel: "list_all2 (\<lambda>l c. 0 \<le> c \<and> nat c < length ?cls \<and> ?cls ! nat c = l) ls enc"
    by (rule loop_rel_seen [OF m l]) (simp add: set_np_unique)
  from transform_frame [OF t] c uv have c': "classes_attr self' = Some ?cls"
    and uv': "unknown_value self' < 0 \<or> unknown_value self' \<ge> int (length ?cls)" by simp_all
  from inverse_transform_labels [OF c' uv' rel] f t show ?thesis by blast
qed

theorem roundtrip_witness:
  "[''b'', ''a'', ''b''] \<noteq> [] \<and>
   (\<exists>self enc stats self'.
      fit (init ''use_mode'' None) (map Some [''b'', ''a'', ''b'']) = Inr self \<and>
      transform self (map Some [''b'', ''a'', ''b'']) = Inr (enc, stats, self') \<and>
      inverse_transform self' enc = Inr (map Label [''b'', ''a'', ''b'']))"
  using roundtrip [of "[''b'', ''a'', ''b'']" "''use_mode''"] by simp

lemma fitted_props:
  assumes f: "fit self0 y_train = Inr self"
  shows "\<exists>cls m. classes_attr self = Some cls \<and> mode_class_attr self = Some m \<and> m \<in> set cls \<and>
           set cls = set (dropna y_train) \<and> distinct cls \<and>
           (\<forall>x. count_list (dropna y_train) x \<le> count_list (dropna y_train) m)"
proof -
  let ?ys = "dropna y_train"
  let ?m = "np_unique ?ys ! np_argmax (np_unique_counts ?ys)"
  note ne = fit_Inr(1) [OF f]
  have "?m \<in> set (np_unique ?ys)" using mode_props(1) [OF ne] by (simp add: set_np_unique)
  moreover have "\<forall>x. count_list ?ys x \<le> count_list ?ys ?m" using mode_props(2) [OF ne] by blast
  ultimately show ?thesis
    using fit_Inr(2,3) [OF f] set_np_unique [of ?ys] distinct_np_unique [of ?ys] by blast
qed




lemma loop_rel_use_mode:
  assumes "mode_class_attr self = Some m"
    and "handle_unknown self = ''use_mode''"
    and "transform_loop self cls i (map Some ls) = Inr (enc, msk, unseen)"
  shows "list_all2 (\<lambda>l c. 0 \<le> c \<and> nat c < length cls \<and> cls ! nat c = l)
           (map (\<lambda>l. if l \<in> set cls then l else m) ls) enc"
proof -
  from transform_loop_rel [OF assms(1) assms(3)]
  have "list_all2 (\<lambda>l c. (if l \<in> set cls then 0 \<le> c \<and> nat c < length cls \<and> cls ! nat c = l
          else 0 \<le> c \<and> nat c < length cls \<and> cls ! nat c = m)) ls enc"
    by (simp add: list_all2_map1 assms(2) cong: if_cong)
  then show ?thesis
    by (simp add: list_all2_conv_all_nth)
qed

text \<open>
  Claim C10, as the code has it. For an encoder with the strategy \<open>use_mode\<close> fitted on
  \<open>y_train\<close> and any label vector without nulls, \<open>transform\<close> returns, and every
  code is an index into the vocabulary. When the unknown sentinel of the encoder is not
  itself such an index (the default \<open>-1\<close> never is), the inverse transform of the codes
  consists of training labels only.
\<close>

theorem use_mode_codes_valid:
  fixes ls :: "'a::linorder list"
  assumes f: "fit self0 y_train = Inr self" and hu: "handle_unknown self0 = ''use_mode''"
  shows "\<exists>cls enc stats self'.
           classes_attr self = Some cls \<and> set cls = set (dropna y_train) \<and>
           transform self (map Some ls) = Inr (enc, stats, self') \<and>
           length enc = length ls \<and>
           (\<forall>c\<in>set enc. 0 \<le> c \<and> c < int (length cls)) \<and>
           (unknown_value self0 < 0 \<or> int (length cls) \<le> unknown_value self0 \<longrightarrow>
              (\<exists>ds. inverse_transform self' enc = Inr (map Label ds) \<and>
                    length ds = length ls \<and> set ds \<subseteq> set (dropna y_train)))"
proof -
  from fitted_props [OF f] obtain cls m where
    c: "classes_attr self = Some cls" and m: "mode_class_attr self = Some m"
    and mc: "m \<in> set cls" and sc: "set cls = set (dropna y_train)"
    by blast
  have hu': "handle_unknown self = ''use_mode''" using fit_Inr(4) [OF f] hu by simp
  then have ne: "handle_unknown self \<noteq> ''error''" by simp
  then have "handle_unknown self \<noteq> ''error'' \<or>
      (\<forall>v\<in>set (map Some ls). \<exists>l. v = Some l \<and> l \<in> set cls)" by (rule disjI1)
  from transform_loop_total [OF this m mc, of 0] obtain r0
    where r0: "transform_loop self cls 0 (map Some ls) = Inr r0" by blast
  obtain enc msk unseen where "r0 = (enc, msk, unseen)" by (cases r0) auto
  with r0 have l: "transform_loop self cls 0 (map Some ls) = Inr (enc, msk, unseen)" by simp
  from transform_of_loop_Inr [OF c l] obtain stats self'
    where t: "transform self (map Some ls) = Inr (enc, stats, self')" by blast
  let ?ds = "map (\<lambda>l. if l \<in> set cls then l else m) ls"
  note rel = loop_rel_use_mode [OF m hu' l]
  from rel have len: "length enc = length ls" by (simp add: list_all2_conv_all_nth)
  have rng: "\<forall>c\<in>set enc. 0 \<le> c \<and> c < int (length cls)"
  proof
    fix c assume "c \<in> set enc"
    then obtain i where "i < length enc" "enc ! i = c" by (auto simp: in_set_conv_nth)
    with rel have "0 \<le> c \<and> nat c < length cls" by (auto simp: list_all2_conv_all_nth)
    then show "0 \<le> c \<and> c < int (length cls)" by linarith
  qed
  have inv: "unknown_value self0 < 0 \<or> int (length cls) \<le> unknown_value self0 \<longrightarrow>
              (\<exists>ds. inverse_transform self' enc = Inr (map Label ds) \<and>
                    length ds = length ls \<and> set ds \<subseteq> set (dropna y_train))"
  proof
    assume "unknown_value self0 < 0 \<or> int (length cls) \<le> unknown_value self0"
    with transform_frame [OF t] fit_Inr(5) [OF f] c
    have c': "classes_attr self' = Some cls"
      and uv': "unknown_value self' < 0 \<or> unknown_value self' \<ge> int (length cls)" by simp_all
    have "inverse_transform self' enc = Inr (map Label ?ds)"
      by (rule inverse_transform_labels [OF c' uv' rel])
    moreover have "length ?ds = length ls" by simp
    moreover have "set ?ds \<subseteq> set (dropna y_train)" using mc sc by auto
    ultimately show "\<exists>ds. inverse_transform self' enc = Inr (map Label ds) \<and>
                    length ds = length ls \<and> set ds \<subseteq> set (dropna y_train)" by blast
  qed
  show ?thesis
    apply (rule exI [of _ cls])
    apply (rule exI [of _ enc])
    apply (rule exI [of _ stats])
    apply (rule exI [of _ self'])
    apply (intro conjI)
         apply (rule c)
        apply (rule sc)
       apply (rule t)
      apply (rule len)
     apply (rule rng)
    apply (rule inv)
    done
qed

theorem use_mode_codes_valid_witness:
  "safe_encode_labels [Some ''b'', Some ''a'', Some ''b''] [Some ''z'', Some ''a''] ''use_mode''
     = Inr ([1, 0, 1], [1, 0],
        \<lparr> handle_unknown = ''use_mode'', unknown_value = - 1,
          classes_attr = Some [''a'', ''b''], mode_class_attr = Some ''b'',
          unseen_labels_attr = [''z''],
          mapping_stats_attr = Some \<lparr> n_classes = 2, classes = [''a'', ''b''],
            mode_class = ''b'', unseen_encountered = False, unseen_count = 0,
            unseen_labels = [] \<rparr> \<rparr>,
        \<lparr> train = \<lparr> total_samples = 3, ts_unseen_count = 0, ts_unseen_labels = [],
                    unseen_percentage = Some 0, strategy_used = ''use_mode'' \<rparr>,
          test = \<lparr> total_samples = 2, ts_unseen_count = 1, ts_unseen_labels = [''z''],
                   unseen_percentage = Some 50, strategy_used = ''use_mode'' \<rparr>,
          encoder_info = \<lparr> fitted_stats = Some \<lparr> n_classes = 2, classes = [''a'', ''b''],
               mode_class = ''b'', unseen_encountered = True, unseen_count = 0,
               unseen_labels = [] \<rparr>,
             unseen_encountered_now = True, total_unseen_labels = 1,
             all_unseen_labels = [''z''] \<rparr> \<rparr>) \<and>
   inverse_transform \<lparr> handle_unknown = ''use_mode'', unknown_value = - 1,
          classes_attr = Some [''a'', ''b''], mode_class_attr = Some ''b'',
          unseen_labels_attr = [''z''],
          mapping_stats_attr = Some \<lparr> n_classes = 2, classes = [''a'', ''b''],
            mode_class = ''b'', unseen_encountered = False, unseen_count = 0,
            unseen_labels = [] \<rparr> \<rparr> [1, 0] = Inr [Label ''b'', Label ''a'']"
proof -
  let ?E = "\<lparr> handle_unknown = ''use_mode'', unknown_value = - 1,
             classes_attr = Some [''a'', ''b''], mode_class_attr = Some ''b'',
             unseen_labels_attr = [],
             mapping_stats_attr = Some \<lparr> n_classes = 2, classes = [''a'', ''b''],
               mode_class = ''b'', unseen_encountered = False, unseen_count = 0,
               unseen_labels = [] \<rparr> \<rparr>"
  have f: "fit (init ''use_mode'' None) [Some ''b'', Some ''a'', Some ''b''] = Inr ?E"
    by (simp add: fit_def init_def dropna_def np_unique_def np_unique_counts_def Let_def)
  have h: "handle_unknown (init ''use_mode'' None :: string SafeLabelEncoder) = ''use_mode''"
    by (simp add: init_def)
  note use_mode_codes_valid [OF f h, of "[''z'', ''a'']"]
  then show ?thesis
    by (simp add: safe_encode_labels_def fit_transform_def fit_def init_def dropna_def
        np_unique_def np_unique_counts_def transform_def le_transform_def get_stats_def Let_def)
qed

text \<open>
  An encoder built with \<open>unknown_value = 0\<close>: the code \<open>0\<close> of the first class is a
  valid index, and \<open>inverse_transform\<close> renders it as the placeholder.
\<close>

theorem placeholder_for_valid_code_counterexample:
  "fit (init ''use_mode'' (Some 0)) [Some ''a'', Some ''b'']
     = Inr \<lparr> handle_unknown = ''use_mode'', unknown_value = 0,
             classes_attr = Some [''a'', ''b''], mode_class_attr = Some ''a'',
             unseen_labels_attr = [],
             mapping_stats_attr = Some \<lparr> n_classes = 2, classes = [''a'', ''b''],
               mode_class = ''a'', unseen_encountered = False, unseen_count = 0,
               unseen_labels = [] \<rparr> \<rparr> \<and>
   transform \<lparr> handle_unknown = ''use_mode'', unknown_value = 0,
             classes_attr = Some [''a'', ''b''], mode_class_attr = Some ''a'',
             unseen_labels_attr = [],
             mapping_stats_attr = Some \<lparr> n_classes = 2, classes = [''a'', ''b''],
               mode_class = ''a'', unseen_encountered = False, unseen_count = 0,
               unseen_labels = [] \<rparr> \<rparr> [Some ''a'', Some ''b'']
     = Inr ([0, 1],
            \<lparr> total_samples = 2, ts_unseen_count = 0, ts_unseen_labels = [],
              unseen_percentage = Some 0, strategy_used = ''use_mode'' \<rparr>,
            \<lparr> handle_unknown = ''use_mode'', unknown_value = 0,
             classes_attr = Some [''a'', ''b''], mode_class_attr = Some ''a'',
             unseen_labels_attr = [],
             mapping_stats_attr = Some \<lparr> n_classes = 2, classes = [''a'', ''b''],
               mode_class = ''a'', unseen_encountered = False, unseen_count = 0,
               unseen_labels = [] \<rparr> \<rparr>) \<and>
   inverse_transform \<lparr> handle_unknown = ''use_mode'', unknown_value = 0,
             classes_attr = Some [''a'', ''b''], mode_class_attr = Some ''a'',
             unseen_labels_attr = [],
             mapping_stats_attr = Some \<lparr> n_classes = 2, classes = [''a'', ''b''],
               mode_class = ''a'', unseen_encountered = False, unseen_count = 0,
               unseen_labels = [] \<rparr> \<rparr> [0, 1]
     = Inr [UNKNOWN 0, Label ''b'']"
  by (simp add: fit_def init_def dropna_def np_unique_def np_unique_counts_def
        transform_def le_transform_def Let_def)

section \<open>Properties of the validator and of the problem-type classifiers\<close>

lemma null_pct_ratio:
  "xs \<noteq> [] \<Longrightarrow> null_pct xs = of_nat (length (filter isna xs)) / of_nat (length xs) * 100"
  by (simp add: null_pct_def)

text \<open>
  Claim C5. A column whose null percentage reaches the validator's threshold
  (\<open>max_null_ratio * 100\<close>; \<open>null_pct\<close> is a hundred times the null ratio) is
  classified \<open>invalid\<close> with the action \<open>drop\<close>, and the whole health record is the
  same whatever the type-inference operations of pandas would answer: no inference
  takes part in it.
\<close>

theorem high_null_column_dropped:
  assumes "null_pct (vals s) \<ge> max_null_ratio self * 100"
  shows "inferred_type (analyze_column self lib s col_name) = ''invalid'' \<and>
         recommended_action (analyze_column self lib s col_name) = ''drop'' \<and>
         analyze_column self lib s col_name = analyze_column self lib' s col_name"
  using assms by (simp add: analyze_column_def Let_def)

theorem high_null_column_dropped_witness:
  "\<forall>lib lib'.
     null_pct (vals \<lparr>dtype = ''object'', vals = replicate 19 Null @ [Str ''7'']\<rparr>)
       \<ge> max_null_ratio DataValidator_init * 100 \<and>
     inferred_type (analyze_column DataValidator_init lib
        \<lparr>dtype = ''object'', vals = replicate 19 Null @ [Str ''7'']\<rparr> ''c'') = ''invalid'' \<and>
     recommended_action (analyze_column DataValidator_init lib
        \<lparr>dtype = ''object'', vals = replicate 19 Null @ [Str ''7'']\<rparr> ''c'') = ''drop'' \<and>
     analyze_column DataValidator_init lib
        \<lparr>dtype = ''object'', vals = replicate 19 Null @ [Str ''7'']\<rparr> ''c''
      = analyze_column DataValidator_init lib'
        \<lparr>dtype = ''object'', vals = replicate 19 Null @ [Str ''7'']\<rparr> ''c''"
proof (intro allI)
  fix lib lib' :: "pandas"
  have h: "null_pct (vals \<lparr>dtype = ''object'', vals = replicate 19 Null @ [Str ''7'']\<rparr>)
       \<ge> max_null_ratio DataValidator_init * 100"
    by (simp add: null_pct_def DataValidator_init_def isna_def)
  from high_null_column_dropped [OF h, of lib "''c''" lib'] h
  show "null_pct (vals \<lparr>dtype = ''object'', vals = replicate 19 Null @ [Str ''7'']\<rparr>)
       \<ge> max_null_ratio DataValidator_init * 100 \<and>
     inferred_type (analyze_column DataValidator_init lib
        \<lparr>dtype = ''object'', vals = replicate 19 Null @ [Str ''7'']\<rparr> ''c'') = ''invalid'' \<and>
     recommended_action (analyze_column DataValidator_init lib
        \<lparr>dtype = ''object'', vals = replicate 19 Null @ [Str ''7'']\<rparr> ''c'') = ''drop'' \<and>
     analyze_column DataValidator_init lib
        \<lparr>dtype = ''object'', vals = replicate 19 Null @ [Str ''7'']\<rparr> ''c''
      = analyze_column DataValidator_init lib'
        \<lparr>dtype = ''object'', vals = replicate 19 Null @ [Str ''7'']\<rparr> ''c''"
    by blast
qed





















lemma analyze_small_int_column:
  "analyze_column DataValidator_init lib
      \<lparr>dtype = ''int64'', vals = [Num 1, Num 2, Num 3, Num 4, Num 5, Num 6,
        Num 7, Num 8, Num 9, Num 10, Num 11, Num 12]\<rparr> c
   = \<lparr> name = c, original_dtype = ''int64'', inferred_type = ''numeric'', null_count = 0,
       null_percentage = 0, unique_count = 12, cardinality_ratio = 1, has_mixed_types = False,
       sample_values = [Num 1, Num 2, Num 3, Num 4, Num 5], issues = [], recommended_action = ''keep'',
       coerce_to_dtype = Some ''int64'' \<rparr>"
  by (simp add: analyze_column_def DataValidator_init_def null_pct_def isna_def
        series_dropna_def nunique_def infer_column_type_def numeric_values_def to_numeric_def
        map_filter_simps np_allclose_int_def astype_int_def Let_def)

lemma infer_small_int_column:
  "infer_problem_type DataValidator_init lib
      \<lparr>dtype = ''int64'', vals = [Num 1, Num 2, Num 3, Num 4, Num 5, Num 6,
        Num 7, Num 8, Num 9, Num 10, Num 11, Num 12]\<rparr>
      \<lparr> name = c, original_dtype = ''int64'', inferred_type = ''numeric'', null_count = 0,
       null_percentage = 0, unique_count = 12, cardinality_ratio = 1, has_mixed_types = False,
       sample_values = [Num 1, Num 2, Num 3, Num 4, Num 5], issues = [], recommended_action = ''keep'',
       coerce_to_dtype = Some ''int64'' \<rparr> = ''regression''"
  by (simp add: infer_problem_type_def DataValidator_init_def isna_def series_dropna_def
        numeric_values_def to_numeric_def map_filter_simps np_allclose_int_def astype_int_def
        Let_def)


section \<open>Properties of the trainer and of the preprocessing service\<close>

lemma length_np_unique: "length (np_unique ys) = card (set ys)"
  by (simp add: np_unique_def length_remdups_card_conv)

text \<open>
  Claim C7. Whenever \<^verbatim>\<open>accuracy_score\<close> returns, \<^verbatim>\<open>_classification_metrics\<close>
  returns a record whose accuracy is that value. With exactly one distinct class among
  the true labels, precision, recall and F1 are 1. With exactly two, they are the values
  the three scorers return for \<open>average = binary\<close>; with any other number, the values
  they return for \<open>average = weighted\<close>. When one of the three scorers raises, the
  handler of the source returns the accuracy in place of all three.
\<close>

theorem classification_metrics_policy:
  assumes acc: "accuracy_score sk (map astype_int y_true) (map astype_int y_pred) = Some a"
  shows "\<exists>m. classification_metrics sk y_true y_pred = Some m \<and> m_accuracy m = a \<and>
           (card (set (map astype_int y_true)) = 1 \<longrightarrow>
              m_precision m = 1 \<and> m_recall m = 1 \<and> m_f1_score m = 1) \<and>
           (card (set (map astype_int y_true)) = 2 \<longrightarrow>
              (\<forall>p r f.
                 precision_score sk (map astype_int y_true) (map astype_int y_pred) ''binary'' = Some p \<and>
                 recall_score sk (map astype_int y_true) (map astype_int y_pred) ''binary'' = Some r \<and>
                 f1_score sk (map astype_int y_true) (map astype_int y_pred) ''binary'' = Some f \<longrightarrow>
                 m_precision m = p \<and> m_recall m = r \<and> m_f1_score m = f) \<and>
              (precision_score sk (map astype_int y_true) (map astype_int y_pred) ''binary'' = None \<or>
               recall_score sk (map astype_int y_true) (map astype_int y_pred) ''binary'' = None \<or>
               f1_score sk (map astype_int y_true) (map astype_int y_pred) ''binary'' = None \<longrightarrow>
                 m_precision m = a \<and> m_recall m = a \<and> m_f1_score m = a)) \<and>
           (card (set (map astype_int y_true)) \<noteq> 1 \<and> card (set (map astype_int y_true)) \<noteq> 2 \<longrightarrow>
              (\<forall>p r f.
                 precision_score sk (map astype_int y_true) (map astype_int y_pred) ''weighted'' = Some p \<and>
                 recall_score sk (map astype_int y_true) (map astype_int y_pred) ''weighted'' = Some r \<and>
                 f1_score sk (map astype_int y_true) (map astype_int y_pred) ''weighted'' = Some f \<longrightarrow>
                 m_precision m = p \<and> m_recall m = r \<and> m_f1_score m = f) \<and>
              (precision_score sk (map astype_int y_true) (map astype_int y_pred) ''weighted'' = None \<or>
               recall_score sk (map astype_int y_true) (map astype_int y_pred) ''weighted'' = None \<or>
               f1_score sk (map astype_int y_true) (map astype_int y_pred) ''weighted'' = None \<longrightarrow>
                 m_precision m = a \<and> m_recall m = a \<and> m_f1_score m = a))"
  using acc
  by (auto simp: classification_metrics_def Let_def length_np_unique split: option.splits)

theorem classification_metrics_policy_witness:
  "classification_metrics
      \<lparr> accuracy_score = (\<lambda>t p. Some (of_nat (length (filter (\<lambda>(x, y). x = y) (zip t p))) / of_nat (length t))),
        precision_score = (\<lambda>t p avg. if avg = ''binary'' then Some (1 / 2) else Some (1 / 3)),
        recall_score = (\<lambda>t p avg. if avg = ''binary'' then Some (1 / 4) else Some (1 / 5)),
        f1_score = (\<lambda>t p avg. if avg = ''binary'' then Some (1 / 6) else Some (1 / 7)) \<rparr>
      [0, 1, 1, 0] [0, 1, 0, 0]
    = Some \<lparr> m_accuracy = 3 / 4, m_precision = 1 / 2, m_recall = 1 / 4, m_f1_score = 1 / 6 \<rparr> \<and>
   classification_metrics
      \<lparr> accuracy_score = (\<lambda>t p. Some (of_nat (length (filter (\<lambda>(x, y). x = y) (zip t p))) / of_nat (length t))),
        precision_score = (\<lambda>t p avg. if avg = ''binary'' then Some (1 / 2) else Some (1 / 3)),
        recall_score = (\<lambda>t p avg. if avg = ''binary'' then Some (1 / 4) else Some (1 / 5)),
        f1_score = (\<lambda>t p avg. if avg = ''binary'' then Some (1 / 6) else Some (1 / 7)) \<rparr>
      [0, 1, 2, 0] [0, 1, 0, 0]
    = Some \<lparr> m_accuracy = 3 / 4, m_precision = 1 / 3, m_recall = 1 / 5, m_f1_score = 1 / 7 \<rparr> \<and>
   classification_metrics
      \<lparr> accuracy_score = (\<lambda>t p. Some (of_nat (length (filter (\<lambda>(x, y). x = y) (zip t p))) / of_nat (length t))),
        precision_score = (\<lambda>t p avg. if avg = ''binary'' then Some (1 / 2) else Some (1 / 3)),
        recall_score = (\<lambda>t p avg. if avg = ''binary'' then Some (1 / 4) else Some (1 / 5)),
        f1_score = (\<lambda>t p avg. if avg = ''binary'' then Some (1 / 6) else Some (1 / 7)) \<rparr>
      [1, 1, 1, 1] [0, 1, 1, 1]
    = Some \<lparr> m_accuracy = 3 / 4, m_precision = 1, m_recall = 1, m_f1_score = 1 \<rparr>"
proof -
  let ?sk = "\<lparr> accuracy_score = (\<lambda>t p. Some (of_nat (length (filter (\<lambda>(x, y). x = y) (zip t p))) / of_nat (length t))),
        precision_score = (\<lambda>t p avg. if avg = ''binary'' then Some (1 / 2) else Some (1 / 3)),
        recall_score = (\<lambda>t p avg. if avg = ''binary'' then Some (1 / 4) else Some (1 / 5)),
        f1_score = (\<lambda>t p avg. if avg = ''binary'' then Some (1 / 6) else Some (1 / 7)) \<rparr>"
  have ai: "map astype_int [0, 1, 1, 0] = [0, 1, 1, 0]" "map astype_int [0, 1, 0, 0] = [0, 1, 0, 0]"
    "map astype_int [0, 1, 2, 0] = [0, 1, 2, 0]" "map astype_int [1, 1, 1, 1] = [1, 1, 1, 1]"
    "map astype_int [0, 1, 1, 1] = [0, 1, 1, 1]"
    by (simp_all add: astype_int_def)
  have a1: "accuracy_score ?sk (map astype_int [0, 1, 1, 0]) (map astype_int [0, 1, 0, 0]) = Some (3 / 4)"
    unfolding ai by simp
  have a2: "accuracy_score ?sk (map astype_int [0, 1, 2, 0]) (map astype_int [0, 1, 0, 0]) = Some (3 / 4)"
    unfolding ai by simp
  have a3: "accuracy_score ?sk (map astype_int [1, 1, 1, 1]) (map astype_int [0, 1, 1, 1]) = Some (3 / 4)"
    unfolding ai by simp
  have ev: "classification_metrics ?sk [0, 1, 1, 0] [0, 1, 0, 0]
      = Some \<lparr> m_accuracy = 3 / 4, m_precision = 1 / 2, m_recall = 1 / 4, m_f1_score = 1 / 6 \<rparr>"
    "classification_metrics ?sk [0, 1, 2, 0] [0, 1, 0, 0]
      = Some \<lparr> m_accuracy = 3 / 4, m_precision = 1 / 3, m_recall = 1 / 5, m_f1_score = 1 / 7 \<rparr>"
    "classification_metrics ?sk [1, 1, 1, 1] [0, 1, 1, 1]
      = Some \<lparr> m_accuracy = 3 / 4, m_precision = 1, m_recall = 1, m_f1_score = 1 \<rparr>"
    unfolding classification_metrics_def Let_def ai np_unique_def by simp_all
  note classification_metrics_policy [OF a1] classification_metrics_policy [OF a2]
    classification_metrics_policy [OF a3]
  then show ?thesis
    using ev by (intro conjI)
qed

text \<open>The second loop in closed form: three filters over the categorical features.\<close>

lemma cardinality_loop_filters:
  "cardinality_loop X cols (removed, high, low) =
     (removed @ filter (\<lambda>col. case map_of X col of None \<Rightarrow> True
          | Some s \<Rightarrow> nunique (vals s) > 1000 \<or> nunique (vals s) = length (series_dropna (vals s))) cols,
      high @ filter (\<lambda>col. case map_of X col of None \<Rightarrow> False
          | Some s \<Rightarrow> \<not> (nunique (vals s) > 1000 \<or> nunique (vals s) = length (series_dropna (vals s))) \<and>
              \<not> (nunique (vals s) \<le> 50 \<and>
                 (of_nat (nunique (vals s)) / of_nat (length (series_dropna (vals s))) :: rat) \<le> 1 / 2)) cols,
      low @ filter (\<lambda>col. case map_of X col of None \<Rightarrow> False
          | Some s \<Rightarrow> \<not> (nunique (vals s) > 1000 \<or> nunique (vals s) = length (series_dropna (vals s))) \<and>
              nunique (vals s) \<le> 50 \<and>
                 (of_nat (nunique (vals s)) / of_nat (length (series_dropna (vals s))) :: rat) \<le> 1 / 2) cols)"
proof (induction cols arbitrary: removed high low)
  case Nil
  then show ?case by simp
next
  case (Cons col cols)
  show ?case
  proof (cases "map_of X col")
    case None
    then show ?thesis by (simp add: Cons.IH)
  next
    case (Some s)
    then show ?thesis by (simp add: Cons.IH Let_def not_le not_less)
  qed
qed

text \<open>
  Claim C8. When the second loop of \<^verbatim>\<open>build_pipeline\<close> has run over the categorical
  features, a column whose unique count exceeds 1000 or equals its number of non-null
  rows is among the removed features and in neither group; any other column is in the
  low-cardinality group exactly when its unique count is at most 50 and its
  unique-to-row ratio at most 0.5, in the high-cardinality group exactly when it is not
  in the low one, and was not removed by this loop.
\<close>

theorem categorical_routing:
  assumes loop: "cardinality_loop X categorical_features (removed0, [], []) = (removed, high, low)"
    and col: "col \<in> set categorical_features"
    and s: "map_of X col = Some s"
  shows "(nunique (vals s) > 1000 \<or> nunique (vals s) = length (series_dropna (vals s)) \<longrightarrow>
            col \<in> set removed \<and> col \<notin> set high \<and> col \<notin> set low) \<and>
         (\<not> (nunique (vals s) > 1000 \<or> nunique (vals s) = length (series_dropna (vals s))) \<longrightarrow>
            (col \<in> set low \<longleftrightarrow>
               nunique (vals s) \<le> 50 \<and>
               (of_nat (nunique (vals s)) / of_nat (length (series_dropna (vals s))) :: rat) \<le> 1 / 2) \<and>
            (col \<in> set high \<longleftrightarrow> col \<notin> set low) \<and>
            (col \<in> set removed \<longrightarrow> col \<in> set removed0))"
  using loop col s unfolding cardinality_loop_filters by auto

theorem categorical_routing_witness:
  "cardinality_loop
      [(''id'', \<lparr>dtype = ''object'', vals = [Str ''u1'', Str ''u2'', Str ''u3'', Str ''u4'', Null]\<rparr>),
       (''lo'', \<lparr>dtype = ''object'', vals = [Str ''a'', Str ''b'', Str ''a'', Str ''b'', Str ''a'']\<rparr>),
       (''hi'', \<lparr>dtype = ''object'', vals = [Str ''a'', Str ''b'', Str ''c'', Str ''a'', Str ''d'']\<rparr>)]
      [''id'', ''lo'', ''hi''] ([], [], [])
    = ([''id''], [''hi''], [''lo''])"
proof -
  let ?X = "[(''id'', \<lparr>dtype = ''object'', vals = [Str ''u1'', Str ''u2'', Str ''u3'', Str ''u4'', Null]\<rparr>),
       (''lo'', \<lparr>dtype = ''object'', vals = [Str ''a'', Str ''b'', Str ''a'', Str ''b'', Str ''a'']\<rparr>),
       (''hi'', \<lparr>dtype = ''object'', vals = [Str ''a'', Str ''b'', Str ''c'', Str ''a'', Str ''d'']\<rparr>)]"
  have l: "cardinality_loop ?X [''id'', ''lo'', ''hi''] ([], [], []) = ([''id''], [''hi''], [''lo''])"
    by (simp add: nunique_def series_dropna_def isna_def Let_def)
  have c: "''lo'' \<in> set [''id'', ''lo'', ''hi'']" by simp
  have m: "map_of ?X ''lo''
             = Some \<lparr>dtype = ''object'', vals = [Str ''a'', Str ''b'', Str ''a'', Str ''b'', Str ''a'']\<rparr>"
    by simp
  from categorical_routing [OF l c m] l show ?thesis by simp
qed

lemma adjust_test_size_small:
  assumes n: "10 \<le> n" and small: "of_nat n * test_size < 5"
  shows "adjust_test_size n test_size = max (5 / of_nat n) (1 / 10)"
    and "test_size < adjust_test_size n test_size"
    and "0 < adjust_test_size n test_size"
    and "adjust_test_size n test_size \<le> 1 / 2"
    and "5 \<le> adjust_test_size n test_size * of_nat n"
proof -
  have n0: "(0::rat) < of_nat n" using n by simp
  show a: "adjust_test_size n test_size = max (5 / of_nat n) (1 / 10)"
    using small by (simp add: adjust_test_size_def)
  have "test_size < 5 / of_nat n"
    using small n0 by (simp add: pos_less_divide_eq mult.commute)
  then show "test_size < adjust_test_size n test_size" unfolding a by simp
  show "0 < adjust_test_size n test_size" unfolding a by simp
  have "(5::rat) / of_nat n \<le> 1 / 2"
    using n n0 by (simp add: pos_divide_le_eq)
  then show "adjust_test_size n test_size \<le> 1 / 2" unfolding a by simp
  have "5 / of_nat n * of_nat n \<le> adjust_test_size n test_size * (of_nat n :: rat)"
    unfolding a using n0 by (intro mult_right_mono) simp_all
  then show "5 \<le> adjust_test_size n test_size * of_nat n" using n0 by simp
qed

lemma n_test_bounds:
  fixes ts :: rat
  assumes n: "10 \<le> n" and lo: "5 \<le> ts * of_nat n" and hi: "ts \<le> 1 / 2"
  shows "5 \<le> nat \<lceil>ts * of_nat n\<rceil>" and "5 \<le> n - nat \<lceil>ts * of_nat n\<rceil>"
proof -
  have "(5::int) \<le> \<lceil>ts * of_nat n\<rceil>"
    using lo by (simp add: le_ceiling_iff)
  then show "5 \<le> nat \<lceil>ts * of_nat n\<rceil>" by linarith
  have "ts * of_nat n \<le> 1 / 2 * (of_nat n :: rat)"
    using hi by (intro mult_right_mono) simp_all
  then have "ts * of_nat n \<le> of_nat n / 2" by simp
  then have "\<lceil>ts * of_nat n\<rceil> \<le> \<lceil>(of_nat n :: rat) / 2\<rceil>"
    by (rule ceiling_mono)
  also have "\<dots> \<le> (int n + 1) div 2"
  proof -
    have "(of_nat n :: rat) / 2 \<le> of_int ((int n + 1) div 2)"
    proof -
      have "int n \<le> 2 * ((int n + 1) div 2)" by linarith
      then have "(of_int (int n) :: rat) \<le> of_int (2 * ((int n + 1) div 2))"
        by (simp only: of_int_le_iff)
      then show ?thesis by simp
    qed
    then show ?thesis by (simp add: ceiling_le_iff)
  qed
  finally have "\<lceil>ts * of_nat n\<rceil> \<le> (int n + 1) div 2" .
  with n show "5 \<le> n - nat \<lceil>ts * of_nat n\<rceil>" by linarith
qed

lemma length_take_cells: "length (take_cells idx xs) = length idx"
  by (simp add: take_cells_def)

lemma n_rows_take_rows: "X \<noteq> [] \<Longrightarrow> n_rows (take_rows idx X) = length idx"
  by (cases X) (auto simp: n_rows_def take_rows_def length_take_cells)

lemma train_test_split_unstratified:
  assumes ts: "0 < ts" "ts < 1"
    and nt: "nat \<lceil>ts * of_nat n\<rceil> < n"
    and perm: "length (shuffle sk rs n) = n"
  shows "\<exists>tr te. train_test_split sk rs n ts None = Some (tr, te) \<and>
           length te = nat \<lceil>ts * of_nat n\<rceil> \<and> length tr = n - nat \<lceil>ts * of_nat n\<rceil>"
  using assms by (simp add: train_test_split_def Let_def)

lemma train_test_split_stratified:
  assumes strat: "\<forall>y a b tr te. stratified_shuffle sk rs y a b = Some (tr, te) \<longrightarrow>
                    length tr = a \<and> length te = b"
    and r: "train_test_split sk rs n ts (Some y) = Some (tr, te)"
  shows "length te = nat \<lceil>ts * of_nat n\<rceil> \<and> length tr = n - nat \<lceil>ts * of_nat n\<rceil>"
  using r strat by (auto simp: train_test_split_def Let_def split: if_splits)

text \<open>
  Claim C9. For a feature table of at least 10 rows and a requested test fraction with
  rows times fraction below 5, the fraction \<^verbatim>\<open>preprocess_data\<close> uses is
  \<open>max (5 / rows) 0.1\<close>, which is above the requested one, and the split returns: the
  test partition has \<open>ceil (fraction * rows)\<close> rows, at least 5, and the training
  partition the remaining rows, at least 5 too. The two hypotheses on scikit-learn say
  that its shuffle of \<open>n\<close> rows has \<open>n\<close> entries and that its stratified splitter,
  when it answers, answers with partitions of the sizes asked for.
\<close>

theorem small_dataset_split:
  assumes n: "10 \<le> n_rows X"
    and small: "of_nat (n_rows X) * test_size < 5"
    and perm: "length (shuffle sk rs (n_rows X)) = n_rows X"
    and strat: "\<forall>y a b tr te. stratified_shuffle sk rs y a b = Some (tr, te) \<longrightarrow>
                    length tr = a \<and> length te = b"
  shows "adjust_test_size (n_rows X) test_size = max (5 / of_nat (n_rows X)) (1 / 10) \<and>
         test_size < adjust_test_size (n_rows X) test_size \<and>
         (\<exists>X_train X_test ytr yte.
            split_dataset sk rs X y ptype (adjust_test_size (n_rows X) test_size)
              = Some (X_train, X_test, ytr, yte) \<and>
            n_rows X_test = nat \<lceil>adjust_test_size (n_rows X) test_size * of_nat (n_rows X)\<rceil> \<and>
            length (vals yte) = n_rows X_test \<and>
            5 \<le> n_rows X_test \<and>
            n_rows X_train = n_rows X - n_rows X_test \<and>
            length (vals ytr) = n_rows X_train \<and>
            5 \<le> n_rows X_train)"
proof -
  let ?n = "n_rows X"
  let ?ts = "adjust_test_size ?n test_size"
  let ?k = "nat \<lceil>?ts * of_nat ?n\<rceil>"
  note adj = adjust_test_size_small [OF n small]
  note nb = n_test_bounds [OF n adj(5) adj(4)]
  have X: "X \<noteq> []" using n by (auto simp: n_rows_def)
  have ts1: "?ts < 1" using adj(4) by simp
  have kn: "?k < ?n" using nb(2) by linarith
  from train_test_split_unstratified [OF adj(3) ts1 kn perm] obtain tr0 te0 where
    u: "train_test_split sk rs ?n ?ts None = Some (tr0, te0)"
      "length te0 = ?k" "length tr0 = ?n - ?k" by blast
  let ?stratify = "if ptype = ''classification'' \<and> nunique (vals y) < 20 then Some (vals y) else None"
  have gen: "\<exists>tr te. (case train_test_split sk rs ?n ?ts st of
                    None \<Rightarrow> train_test_split sk rs ?n ?ts None
                  | Some r \<Rightarrow> Some r) = Some (tr, te) \<and> length te = ?k \<and> length tr = ?n - ?k"
    for st
  proof (cases "train_test_split sk rs ?n ?ts st")
    case None
    with u show ?thesis by simp
  next
    case (Some r)
    obtain tr te where r: "r = (tr, te)" by (cases r) auto
    show ?thesis
    proof (cases st)
      case None
      with Some u r show ?thesis by simp
    next
      case (Some y')
      with \<open>train_test_split sk rs ?n ?ts st = Some r\<close> r
      have "train_test_split sk rs ?n ?ts (Some y') = Some (tr, te)" by simp
      from train_test_split_stratified [OF strat this]
        \<open>train_test_split sk rs ?n ?ts st = Some r\<close> r
      show ?thesis by simp
    qed
  qed
  from gen [of ?stratify]
  obtain tr te where
    s: "(case train_test_split sk rs ?n ?ts ?stratify of
                    None \<Rightarrow> train_test_split sk rs ?n ?ts None
                  | Some r \<Rightarrow> Some r) = Some (tr, te)"
    and te: "length te = ?k" and tr: "length tr = ?n - ?k" by blast
  have sd: "split_dataset sk rs X y ptype ?ts
              = Some (take_rows tr X, take_rows te X,
                      y\<lparr>vals := take_cells tr (vals y)\<rparr>, y\<lparr>vals := take_cells te (vals y)\<rparr>)"
    unfolding split_dataset_def Let_def s by simp
  have "split_dataset sk rs X y ptype ?ts
              = Some (take_rows tr X, take_rows te X,
                      y\<lparr>vals := take_cells tr (vals y)\<rparr>, y\<lparr>vals := take_cells te (vals y)\<rparr>) \<and>
            n_rows (take_rows te X) = ?k \<and>
            length (vals (y\<lparr>vals := take_cells te (vals y)\<rparr>)) = n_rows (take_rows te X) \<and>
            5 \<le> n_rows (take_rows te X) \<and>
            n_rows (take_rows tr X) = ?n - n_rows (take_rows te X) \<and>
            length (vals (y\<lparr>vals := take_cells tr (vals y)\<rparr>)) = n_rows (take_rows tr X) \<and>
            5 \<le> n_rows (take_rows tr X)"
    using sd te tr nb by (simp add: n_rows_take_rows [OF X] length_take_cells)
  then have "\<exists>X_train X_test ytr yte.
            split_dataset sk rs X y ptype ?ts = Some (X_train, X_test, ytr, yte) \<and>
            n_rows X_test = ?k \<and>
            length (vals yte) = n_rows X_test \<and>
            5 \<le> n_rows X_test \<and>
            n_rows X_train = ?n - n_rows X_test \<and>
            length (vals ytr) = n_rows X_train \<and>
            5 \<le> n_rows X_train"
    by (intro exI)
  with adj(1) adj(2) show ?thesis by (intro conjI)
qed

text \<open>
  The 12-row table with a 20% test split: the fraction becomes 5/12, the stratified
  attempt is refused, and the fallback puts 5 rows in the test partition and 7 in the
  training partition.
\<close>

theorem small_dataset_split_witness:
  "adjust_test_size 12 (1 / 5) = 5 / 12 \<and>
   split_dataset
     \<lparr> shuffle = (\<lambda>rs n. [0..<n]), stratified_shuffle = (\<lambda>rs y a b. None),
       ct_fit_transform = (\<lambda>ct X y. Some ((ct, X), X)), ct_transform = (\<lambda>f X. Some X),
       get_feature_names_out = (\<lambda>f. None), transformers_fitted = fst,
       n_columns = length \<rparr>
     42
     [(''a'', \<lparr>dtype = ''int64'', vals = [Num 1, Num 2, Num 3, Num 4, Num 5, Num 6,
        Num 7, Num 8, Num 9, Num 10, Num 11, Num 12]\<rparr>)]
     \<lparr>dtype = ''object'', vals = [Str ''p'', Str ''q'', Str ''p'', Str ''q'', Str ''p'', Str ''q'',
        Str ''p'', Str ''q'', Str ''p'', Str ''q'', Str ''p'', Str ''q'']\<rparr>
     ''classification'' (5 / 12)
   = Some ([(''a'', \<lparr>dtype = ''int64'', vals = [Num 6, Num 7, Num 8, Num 9, Num 10, Num 11, Num 12]\<rparr>)],
           [(''a'', \<lparr>dtype = ''int64'', vals = [Num 1, Num 2, Num 3, Num 4, Num 5]\<rparr>)],
           \<lparr>dtype = ''object'', vals = [Str ''q'', Str ''p'', Str ''q'', Str ''p'', Str ''q'', Str ''p'', Str ''q'']\<rparr>,
           \<lparr>dtype = ''object'', vals = [Str ''p'', Str ''q'', Str ''p'', Str ''q'', Str ''p'']\<rparr>)"
proof -
  let ?sk = "\<lparr> shuffle = (\<lambda>rs n. [0..<n]), stratified_shuffle = (\<lambda>rs y a b. None),
       ct_fit_transform = (\<lambda>ct X y. Some ((ct, X), X)), ct_transform = (\<lambda>f X. Some X),
       get_feature_names_out = (\<lambda>f. None), transformers_fitted = fst,
       n_columns = length \<rparr> :: (ColumnTransformer \<times> dataframe, dataframe) sklearn"
  let ?X = "[(''a'', \<lparr>dtype = ''int64'', vals = [Num 1, Num 2, Num 3, Num 4, Num 5, Num 6,
        Num 7, Num 8, Num 9, Num 10, Num 11, Num 12]\<rparr>)]"
  let ?y = "\<lparr>dtype = ''object'', vals = [Str ''p'', Str ''q'', Str ''p'', Str ''q'', Str ''p'', Str ''q'',
        Str ''p'', Str ''q'', Str ''p'', Str ''q'', Str ''p'', Str ''q'']\<rparr>"
  have n: "n_rows ?X = 12" by (simp add: n_rows_def)
  have h1: "10 \<le> n_rows ?X" unfolding n by simp
  have h2: "of_nat (n_rows ?X) * (1 / 5 :: rat) < 5" unfolding n by simp
  have h3: "length (shuffle ?sk 42 (n_rows ?X)) = n_rows ?X" by simp
  have h4: "\<forall>y a b tr te. stratified_shuffle ?sk 42 y a b = Some (tr, te) \<longrightarrow>
                    length tr = a \<and> length te = b" by simp
  have a: "adjust_test_size 12 (1 / 5) = 5 / 12"
    by (simp add: adjust_test_size_def)
  have idx: "[0..<12] = [0, 1, 2, 3, 4, 5, 6, 7, 8, 9, 10, 11]"
    by (simp add: upt_rec)
  have tts: "train_test_split ?sk 42 12 (5 / 12) None = Some ([5, 6, 7, 8, 9, 10, 11], [0, 1, 2, 3, 4])"
    "train_test_split ?sk 42 12 (5 / 12) (Some (vals ?y)) = None"
    by (simp_all add: train_test_split_def Let_def idx)
  have nu: "nunique (vals ?y) < 20"
    by (simp add: nunique_def series_dropna_def isna_def)
  have s: "split_dataset ?sk 42 ?X ?y ''classification'' (5 / 12)
    = Some ([(''a'', \<lparr>dtype = ''int64'', vals = [Num 6, Num 7, Num 8, Num 9, Num 10, Num 11, Num 12]\<rparr>)],
           [(''a'', \<lparr>dtype = ''int64'', vals = [Num 1, Num 2, Num 3, Num 4, Num 5]\<rparr>)],
           \<lparr>dtype = ''object'', vals = [Str ''q'', Str ''p'', Str ''q'', Str ''p'', Str ''q'', Str ''p'', Str ''q'']\<rparr>,
           \<lparr>dtype = ''object'', vals = [Str ''p'', Str ''q'', Str ''p'', Str ''q'', Str ''p'']\<rparr>)"
    unfolding split_dataset_def Let_def n using nu tts
    by (simp add: take_rows_def take_cells_def)
  from small_dataset_split [OF h1 h2 h3 h4, of ?y "''classification''"] a s
  show ?thesis by (intro conjI)
qed

lemma preprocess_data_Inr:
  assumes "preprocess_data validator removed0 lib sk df target_col test_size ute vt rs = Inr r"
  shows "\<exists>cleaned_df report X y ptype X_train X_test ct removed.
         validate_and_clean validator lib df (Some target_col) = Inr (cleaned_df, report) \<and>
         split_dataset sk rs X y ptype (adjust_test_size (n_rows X) test_size)
           = Some (X_train, X_test, y_train_split r, y_test_split r) \<and>
         build_pipeline lib removed0 X_train ute vt = Inr (ct, removed) \<and>
         ct_fit_transform sk ct X_train (y_train_split r) = Some (preprocessor r, X_train_processed r) \<and>
         ct_transform sk (preprocessor r) X_test = Some (X_test_processed r)"
proof -
  from assms obtain cleaned_df report where
    v: "validate_and_clean validator lib df (Some target_col) = Inr (cleaned_df, report)"
    by (auto simp: preprocess_data_def split: sum.splits)
  from assms obtain X y where
    xy: "separate_features_target cleaned_df target_col = Inr (X, y)"
    unfolding preprocess_data_def v by (auto split: sum.splits)
  define ptype where "ptype = (case recommended_problem_type report of
                                     None \<Rightarrow> detect_problem_type lib y
                                   | Some p \<Rightarrow> if p = [] then detect_problem_type lib y else p)"
  have "split_dataset sk rs X y ptype (adjust_test_size (n_rows X) test_size) \<noteq> None"
  proof
    assume n: "split_dataset sk rs X y ptype (adjust_test_size (n_rows X) test_size) = None"
    from assms show False
      unfolding preprocess_data_def by (simp add: v xy Let_def n [unfolded ptype_def])
  qed
  then obtain q where
    "split_dataset sk rs X y ptype (adjust_test_size (n_rows X) test_size) = Some q" by auto
  moreover obtain X_train X_test ytr yte where "q = (X_train, X_test, ytr, yte)"
    by (cases q) auto
  ultimately have
    s: "split_dataset sk rs X y ptype (adjust_test_size (n_rows X) test_size)
          = Some (X_train, X_test, ytr, yte)" by simp
  have "\<exists>q'. fit_and_transform lib sk removed0 X_train ytr X_test ute vt = Inr q'"
  proof (cases "fit_and_transform lib sk removed0 X_train ytr X_test ute vt")
    case (Inl e)
    from assms show ?thesis
      unfolding preprocess_data_def by (simp add: v xy Let_def s [unfolded ptype_def] Inl)
  next
    case (Inr q')
    then show ?thesis by blast
  qed
  then obtain q' where "fit_and_transform lib sk removed0 X_train ytr X_test ute vt = Inr q'"
    by blast
  moreover obtain fitted Xtr_p Xte_p removed where "q' = (fitted, Xtr_p, Xte_p, removed)"
    by (cases q') auto
  ultimately have
    ft: "fit_and_transform lib sk removed0 X_train ytr X_test ute vt
           = Inr (fitted, Xtr_p, Xte_p, removed)" by simp
  from assms have
    r: "y_train_split r = ytr" "y_test_split r = yte" "preprocessor r = fitted"
       "X_train_processed r = Xtr_p" "X_test_processed r = Xte_p"
    unfolding preprocess_data_def
    by (auto simp: v xy Let_def s [unfolded ptype_def] ft split: option.splits)
  from ft obtain ct where
    b: "build_pipeline lib removed0 X_train ute vt = Inr (ct, removed)"
    and f: "ct_fit_transform sk ct X_train ytr = Some (fitted, Xtr_p)"
    and t: "ct_transform sk fitted X_test = Some Xte_p"
    by (auto simp: fit_and_transform_def split: sum.splits option.splits prod.splits)
  from v s b f t show ?thesis unfolding r [symmetric] by blast
qed

lemma safe_encode_labels_Inr:
  assumes "safe_encode_labels ytr yte hu = Inr (etr, ete, enc, stats)"
  shows "\<exists>enc1 st1 enc2 st2.
           fit (init hu None) ytr = Inr enc1 \<and>
           transform enc1 ytr = Inr (etr, st1, enc2) \<and>
           transform enc2 yte = Inr (ete, st2, enc) \<and>
           classes_attr enc = classes_attr enc1 \<and>
           mode_class_attr enc = mode_class_attr enc1 \<and>
           classes_attr enc = Some (np_unique (dropna ytr)) \<and>
           mode_class_attr enc
             = Some (np_unique (dropna ytr) ! np_argmax (np_unique_counts (dropna ytr)))"
proof -
  from assms obtain enc1 where f: "fit (init hu None) ytr = Inr enc1"
    by (auto simp: safe_encode_labels_def fit_transform_def Let_def split: sum.splits)
  from assms f obtain st1 enc2 where t1: "transform enc1 ytr = Inr (etr, st1, enc2)"
    by (auto simp: safe_encode_labels_def fit_transform_def Let_def split: sum.splits)
  from assms f t1 obtain st2 where t2: "transform enc2 yte = Inr (ete, st2, enc)"
    by (auto simp: safe_encode_labels_def fit_transform_def Let_def split: sum.splits)
  from transform_frame [OF t1] transform_frame [OF t2]
  have "classes_attr enc = classes_attr enc1" "mode_class_attr enc = mode_class_attr enc1"
    by simp_all
  with fit_Inr(2,3) [OF f] f t1 t2 show ?thesis by auto
qed

text \<open>
  Claim C2. Whenever \<^verbatim>\<open>preprocess_data\<close> returns, the fitted preprocessor and the
  processed training matrix it returns are what \<^verbatim>\<open>fit_transform\<close> gives for the
  pipeline built from the training features, on the training features and the training
  labels; the test features enter only \<^verbatim>\<open>transform\<close> of the fitted preprocessor.
  Whenever \<^verbatim>\<open>safe_encode_labels\<close> returns, the vocabulary and the mode of the encoder
  it returns are those \<^verbatim>\<open>fit\<close> computes from the training labels alone: the sorted
  distinct non-null training labels and the first most frequent one.
\<close>

theorem fit_on_training_partition:
  "(preprocess_data validator removed0 lib sk df target_col test_size ute vt rs = Inr r \<longrightarrow>
      (\<exists>cleaned_df report X y ptype X_train X_test ct removed.
         validate_and_clean validator lib df (Some target_col) = Inr (cleaned_df, report) \<and>
         split_dataset sk rs X y ptype (adjust_test_size (n_rows X) test_size)
           = Some (X_train, X_test, y_train_split r, y_test_split r) \<and>
         build_pipeline lib removed0 X_train ute vt = Inr (ct, removed) \<and>
         ct_fit_transform sk ct X_train (y_train_split r) = Some (preprocessor r, X_train_processed r) \<and>
         ct_transform sk (preprocessor r) X_test = Some (X_test_processed r))) \<and>
   (safe_encode_labels ytr yte hu = Inr (etr, ete, enc, stats) \<longrightarrow>
      (\<exists>enc1 st1 enc2 st2.
           fit (init hu None) ytr = Inr enc1 \<and>
           transform enc1 ytr = Inr (etr, st1, enc2) \<and>
           transform enc2 yte = Inr (ete, st2, enc) \<and>
           classes_attr enc = classes_attr enc1 \<and>
           mode_class_attr enc = mode_class_attr enc1 \<and>
           classes_attr enc = Some (np_unique (dropna ytr)) \<and>
           mode_class_attr enc
             = Some (np_unique (dropna ytr) ! np_argmax (np_unique_counts (dropna ytr)))))"
  using preprocess_data_Inr safe_encode_labels_Inr
  by (intro conjI impI) assumption+

lemma cleaned_small_table:
  "cleaned DataValidator_init lib
     [(''a'', \<lparr>dtype = ''int64'', vals = [Num 1, Num 2, Num 3, Num 4, Num 5, Num 6,
        Num 7, Num 8, Num 9, Num 10, Num 11, Num 12]\<rparr>),
      (''y'', \<lparr>dtype = ''int64'', vals = [Num 1, Num 2, Num 3, Num 4, Num 5, Num 6,
        Num 7, Num 8, Num 9, Num 10, Num 11, Num 12]\<rparr>)] (Some ''y'')
   = ([(''a'', \<lparr>dtype = ''int64'', vals = [Num 1, Num 2, Num 3, Num 4, Num 5, Num 6,
        Num 7, Num 8, Num 9, Num 10, Num 11, Num 12]\<rparr>),
       (''y'', \<lparr>dtype = ''int64'', vals = [Num 1, Num 2, Num 3, Num 4, Num 5, Num 6,
        Num 7, Num 8, Num 9, Num 10, Num 11, Num 12]\<rparr>)], [], [],
      Some (analyze_column DataValidator_init lib
        \<lparr>dtype = ''int64'', vals = [Num 1, Num 2, Num 3, Num 4, Num 5, Num 6,
        Num 7, Num 8, Num 9, Num 10, Num 11, Num 12]\<rparr> ''y''))"
  and recommended_small_table:
  "recommended_of DataValidator_init lib
     [(''a'', \<lparr>dtype = ''int64'', vals = [Num 1, Num 2, Num 3, Num 4, Num 5, Num 6,
        Num 7, Num 8, Num 9, Num 10, Num 11, Num 12]\<rparr>),
      (''y'', \<lparr>dtype = ''int64'', vals = [Num 1, Num 2, Num 3, Num 4, Num 5, Num 6,
        Num 7, Num 8, Num 9, Num 10, Num 11, Num 12]\<rparr>)] (Some ''y'')
   = Some ''regression''"
proof -
  let ?a = "\<lparr>dtype = ''int64'', vals = [Num 1, Num 2, Num 3, Num 4, Num 5, Num 6,
        Num 7, Num 8, Num 9, Num 10, Num 11, Num 12]\<rparr>"
  let ?df = "[(''a'', ?a), (''y'', ?a)]"
  let ?tc = "Some ''y''"
  let ?h = "analyze_column DataValidator_init lib ?a ''y''"
  have rp: "reports_of DataValidator_init lib ?df
              = [(''a'', analyze_column DataValidator_init lib ?a ''a''), (''y'', ?h)]"
    by (simp add: reports_of_def)
  have loop: "clean_loop lib ?tc (reports_of DataValidator_init lib ?df) (?df, [], [])
                = (?df, [], [])"
    unfolding rp by (simp add: analyze_small_int_column)
  have th: "target_health_of DataValidator_init lib ?df ?tc = Some ?h"
    unfolding target_health_of_def rp by (simp add: truthy_def target_name_def)
  show rc: "recommended_of DataValidator_init lib ?df ?tc = Some ''regression''"
    unfolding recommended_of_def th
    by (simp add: truthy_def target_name_def analyze_small_int_column infer_small_int_column)
  have ct: "clean_target_column lib ?df ''y'' ?h ''regression'' = (?df, ?h)"
    by (simp add: clean_target_column_def analyze_small_int_column)
  have rn: "remove_null_targets ?df ''y'' = ?df"
    by (simp add: remove_null_targets_def isna_def)
  show "cleaned DataValidator_init lib ?df ?tc = (?df, [], [], Some ?h)"
    unfolding cleaned_def loop th rc
    by (simp add: truthy_def target_name_def columns_def ct rn Let_def)
qed

lemma validate_small_table:
  "\<exists>report.
     validate_and_clean DataValidator_init lib
       (Some [(''a'', \<lparr>dtype = ''int64'', vals = [Num 1, Num 2, Num 3, Num 4, Num 5, Num 6,
                 Num 7, Num 8, Num 9, Num 10, Num 11, Num 12]\<rparr>),
              (''y'', \<lparr>dtype = ''int64'', vals = [Num 1, Num 2, Num 3, Num 4, Num 5, Num 6,
                 Num 7, Num 8, Num 9, Num 10, Num 11, Num 12]\<rparr>)]) (Some ''y'')
       = Inr ([(''a'', \<lparr>dtype = ''int64'', vals = [Num 1, Num 2, Num 3, Num 4, Num 5, Num 6,
                 Num 7, Num 8, Num 9, Num 10, Num 11, Num 12]\<rparr>),
               (''y'', \<lparr>dtype = ''int64'', vals = [Num 1, Num 2, Num 3, Num 4, Num 5, Num 6,
                 Num 7, Num 8, Num 9, Num 10, Num 11, Num 12]\<rparr>)], report) \<and>
     recommended_problem_type report = Some ''regression''"
  unfolding validate_and_clean_def
  by (simp add: cleaned_small_table recommended_small_table df_empty_def n_rows_def
        truthy_def target_name_def columns_def Let_def)

lemma build_pipeline_numeric_column:
  "build_pipeline lib [] [(''a'', \<lparr>dtype = ''int64'',
       vals = [Num 6, Num 7, Num 8, Num 9, Num 10, Num 11, Num 12]\<rparr>)] False 0
     = Inr ([(''num'', MedianScale, [''a''])], [])"
  by (simp add: build_pipeline_def series_dropna_def isna_def numeric_values_def
        map_filter_simps to_numeric_def Let_def)

theorem fit_on_training_partition_witness:
  "\<forall>lib.
     (\<exists>r. preprocess_data DataValidator_init [] lib
        \<lparr> shuffle = (\<lambda>rs n. [0..<n]), stratified_shuffle = (\<lambda>rs y a b. None),
          ct_fit_transform = (\<lambda>ct X y. Some ((ct, X), X)), ct_transform = (\<lambda>f X. Some X),
          get_feature_names_out = (\<lambda>f. None), transformers_fitted = fst,
          n_columns = length \<rparr>
        (Some [(''a'', \<lparr>dtype = ''int64'', vals = [Num 1, Num 2, Num 3, Num 4, Num 5, Num 6,
                  Num 7, Num 8, Num 9, Num 10, Num 11, Num 12]\<rparr>),
               (''y'', \<lparr>dtype = ''int64'', vals = [Num 1, Num 2, Num 3, Num 4, Num 5, Num 6,
                  Num 7, Num 8, Num 9, Num 10, Num 11, Num 12]\<rparr>)])
        ''y'' (1 / 5) False 0 42 = Inr r \<and>
      preprocessor r
        = ([(''num'', MedianScale, [''a''])],
           [(''a'', \<lparr>dtype = ''int64'', vals = [Num 6, Num 7, Num 8, Num 9, Num 10, Num 11, Num 12]\<rparr>)]) \<and>
      X_test_processed r
        = [(''a'', \<lparr>dtype = ''int64'', vals = [Num 1, Num 2, Num 3, Num 4, Num 5]\<rparr>)]) \<and>
     (\<exists>etr ete enc stats.
        safe_encode_labels [Some ''b'', Some ''a'', Some ''b''] [Some ''z'', Some ''a''] ''use_mode''
          = Inr (etr, ete, enc, stats) \<and>
        classes_attr enc = Some [''a'', ''b''] \<and> mode_class_attr enc = Some ''b'')"
proof
  fix lib :: pandas
  let ?sk = "\<lparr> shuffle = (\<lambda>rs n. [0..<n]), stratified_shuffle = (\<lambda>rs y a b. None),
          ct_fit_transform = (\<lambda>ct X y. Some ((ct, X), X)), ct_transform = (\<lambda>f X. Some X),
          get_feature_names_out = (\<lambda>f. None), transformers_fitted = fst,
          n_columns = length \<rparr> :: (ColumnTransformer \<times> dataframe, dataframe) sklearn"
  let ?a = "\<lparr>dtype = ''int64'', vals = [Num 1, Num 2, Num 3, Num 4, Num 5, Num 6,
                  Num 7, Num 8, Num 9, Num 10, Num 11, Num 12]\<rparr>"
  let ?df = "[(''a'', ?a), (''y'', ?a)]"
  let ?Xtr = "[(''a'', \<lparr>dtype = ''int64'', vals = [Num 6, Num 7, Num 8, Num 9, Num 10, Num 11, Num 12]\<rparr>)]"
  let ?Xte = "[(''a'', \<lparr>dtype = ''int64'', vals = [Num 1, Num 2, Num 3, Num 4, Num 5]\<rparr>)]"
  let ?ytr = "\<lparr>dtype = ''int64'', vals = [Num 6, Num 7, Num 8, Num 9, Num 10, Num 11, Num 12]\<rparr>"
  let ?yte = "\<lparr>dtype = ''int64'', vals = [Num 1, Num 2, Num 3, Num 4, Num 5]\<rparr>"
  from validate_small_table [of lib] obtain report where
    v: "validate_and_clean DataValidator_init lib (Some ?df) (Some ''y'') = Inr (?df, report)"
    and rc: "recommended_problem_type report = Some ''regression''" by blast
  have sep: "separate_features_target ?df ''y'' = Inr ([(''a'', ?a)], ?a)"
    by (simp add: separate_features_target_def drop_column_def isna_def n_rows_def Let_def)
  have n: "n_rows [(''a'', ?a)] = 12" by (simp add: n_rows_def)
  have a: "adjust_test_size 12 (1 / 5) = 5 / 12" by (simp add: adjust_test_size_def)
  have idx: "[0..<12] = [0, 1, 2, 3, 4, 5, 6, 7, 8, 9, 10, 11]" by (simp add: upt_rec)
  have tts: "train_test_split ?sk 42 12 (5 / 12) None = Some ([5, 6, 7, 8, 9, 10, 11], [0, 1, 2, 3, 4])"
    by (simp add: train_test_split_def Let_def idx)
  have s: "split_dataset ?sk 42 [(''a'', ?a)] ?a ''regression'' (5 / 12) = Some (?Xtr, ?Xte, ?ytr, ?yte)"
    unfolding split_dataset_def Let_def n using tts
    by (simp add: take_rows_def take_cells_def)
  have ft: "fit_and_transform lib ?sk [] ?Xtr ?ytr ?Xte False 0
              = Inr (([(''num'', MedianScale, [''a''])], ?Xtr), ?Xtr, ?Xte, [])"
    unfolding fit_and_transform_def build_pipeline_numeric_column by simp
  have "\<exists>r. preprocess_data DataValidator_init [] lib ?sk (Some ?df) ''y'' (1 / 5) False 0 42 = Inr r"
    unfolding preprocess_data_def by (simp add: v sep rc n a s ft Let_def)
  then obtain r where
    r: "preprocess_data DataValidator_init [] lib ?sk (Some ?df) ''y'' (1 / 5) False 0 42 = Inr r"
    by blast
  then have pr: "preprocessor r = ([(''num'', MedianScale, [''a''])], ?Xtr)"
    and xt: "X_test_processed r = ?Xte"
    unfolding preprocess_data_def by (auto simp: v sep rc n a s ft Let_def)
  have e: "safe_encode_labels [Some ''b'', Some ''a'', Some ''b''] [Some ''z'', Some ''a''] ''use_mode''
     = Inr ([1, 0, 1], [1, 0],
        \<lparr> handle_unknown = ''use_mode'', unknown_value = - 1,
          classes_attr = Some [''a'', ''b''], mode_class_attr = Some ''b'',
          unseen_labels_attr = [''z''],
          mapping_stats_attr = Some \<lparr> n_classes = 2, classes = [''a'', ''b''],
            mode_class = ''b'', unseen_encountered = False, unseen_count = 0,
            unseen_labels = [] \<rparr> \<rparr>,
        \<lparr> train = \<lparr> total_samples = 3, ts_unseen_count = 0, ts_unseen_labels = [],
                    unseen_percentage = Some 0, strategy_used = ''use_mode'' \<rparr>,
          test = \<lparr> total_samples = 2, ts_unseen_count = 1, ts_unseen_labels = [''z''],
                   unseen_percentage = Some 50, strategy_used = ''use_mode'' \<rparr>,
          encoder_info = \<lparr> fitted_stats = Some \<lparr> n_classes = 2, classes = [''a'', ''b''],
               mode_class = ''b'', unseen_encountered = True, unseen_count = 0,
               unseen_labels = [] \<rparr>,
             unseen_encountered_now = True, total_unseen_labels = 1,
             all_unseen_labels = [''z''] \<rparr> \<rparr>)"
    by (simp add: safe_encode_labels_def fit_transform_def fit_def init_def dropna_def
        np_unique_def np_unique_counts_def transform_def le_transform_def get_stats_def Let_def)
  note inst = fit_on_training_partition [of DataValidator_init "[]" lib ?sk "Some ?df" "''y''"
      "1 / 5" False 0 42 r "[Some ''b'', Some ''a'', Some ''b'']" "[Some ''z'', Some ''a'']"
      "''use_mode''"]
  from inst r pr xt e
  show "(\<exists>r. preprocess_data DataValidator_init [] lib ?sk (Some ?df) ''y'' (1 / 5) False 0 42 = Inr r \<and>
      preprocessor r = ([(''num'', MedianScale, [''a''])], ?Xtr) \<and>
      X_test_processed r = ?Xte) \<and>
     (\<exists>etr ete enc stats.
        safe_encode_labels [Some ''b'', Some ''a'', Some ''b''] [Some ''z'', Some ''a''] ''use_mode''
          = Inr (etr, ete, enc, stats) \<and>
        classes_attr enc = Some [''a'', ''b''] \<and> mode_class_attr enc = Some ''b'')"
    by auto
qed

end
